theory Spec2Isabelle
  imports Complex_Main
begin

section \<open>JavaScript values used by the GitLab client\<close>

text \<open>
  A JavaScript \<open>number\<close>: the finite values are kept as exact rationals (every double is
  one), beside \<open>NaN\<close> and the two infinities. The two zeros are one value here: they are
  equal, both falsy, and both print as \<open>0\<close>.
\<close>

datatype js_number = NaN | NegInf | Fin rat | PosInf

text \<open>The comparison \<open>a < b\<close>; it is false as soon as one side is \<open>NaN\<close>.\<close>

fun js_less :: "js_number \<Rightarrow> js_number \<Rightarrow> bool" where
  "js_less NaN _ = False"
| "js_less _ NaN = False"
| "js_less _ NegInf = False"
| "js_less NegInf _ = True"
| "js_less PosInf _ = False"
| "js_less (Fin a) PosInf = True"
| "js_less (Fin a) (Fin b) = (a < b)"

text \<open>\<open>Math.min(a, b)\<close>: \<open>NaN\<close> when an argument is \<open>NaN\<close>, else the smaller one.\<close>

definition Math_min :: "js_number \<Rightarrow> js_number \<Rightarrow> js_number" where
  "Math_min a b = (if a = NaN \<or> b = NaN then NaN else if js_less b a then b else a)"

text \<open>Truthiness of an optional number: \<open>undefined\<close>, \<open>0\<close> and \<open>NaN\<close> are falsy.\<close>

fun truthy_number :: "js_number option \<Rightarrow> bool" where
  "truthy_number None = False"
| "truthy_number (Some NaN) = False"
| "truthy_number (Some (Fin r)) = (r \<noteq> 0)"
| "truthy_number (Some _) = True"

text \<open>Truthiness of an optional string (\<open>null\<close> and \<open>undefined\<close> are \<open>None\<close>).\<close>

fun truthy_string :: "string option \<Rightarrow> bool" where
  "truthy_string None = False"
| "truthy_string (Some s) = (s \<noteq> [])"

subsection \<open>Strings\<close>

text \<open>
  A string is the list of the bytes of its UTF-8 encoding; only well-formed strings (no
  lone surrogate) are represented. \<open>s.length\<close> counts UTF-16 code units: one for each
  encoded code point, and one more for each that takes four bytes.
\<close>

definition js_string_length :: "string \<Rightarrow> nat" where
  "js_string_length s =
     length (filter (\<lambda>c. \<not> (128 \<le> (of_char c :: nat) \<and> (of_char c :: nat) < 192)) s)
     + length (filter (\<lambda>c. 240 \<le> (of_char c :: nat)) s)"

text \<open>Decimal text of a natural number, as a template literal prints an integer status.\<close>

fun show_nat :: "nat \<Rightarrow> string" where
  "show_nat n = (if n < 10 then [''0123456789'' ! n]
                 else show_nat (n div 10) @ [''0123456789'' ! (n mod 10)])"

declare show_nat.simps [simp del]

subsection \<open>\<open>parseInt(s, 10)\<close>\<close>

text \<open>
  The white space and line terminators that \<open>parseInt\<close> skips, as byte sequences:
  U+0009 to U+000D, U+0020, U+00A0, U+1680, U+2000 to U+200A, U+2028, U+2029, U+202F,
  U+205F, U+3000 and U+FEFF. \<open>whitespace_width s\<close> is the number of bytes of the white
  space character that \<open>s\<close> starts with, and 0 when it starts with none.
\<close>

definition whitespace_width :: "string \<Rightarrow> nat" where
  "whitespace_width s =
     (case map of_char s of
        [] \<Rightarrow> (0 :: nat)
      | a # r \<Rightarrow>
          if (9 :: nat) \<le> a \<and> a \<le> 13 \<or> a = 32 then 1
          else if a = 194 \<and> take 1 r = [160] then 2
          else if a = 225 \<and> take 2 r = [154, 128] then 3
          else if a = 226 \<and> take 1 r = [128] \<and>
                  (case drop 1 r of
                     [] \<Rightarrow> False
                   | b # _ \<Rightarrow> 128 \<le> b \<and> b \<le> 138 \<or> b = 168 \<or> b = 169 \<or> b = 175) then 3
          else if a = 226 \<and> take 2 r = [129, 159] then 3
          else if a = 227 \<and> take 2 r = [128, 128] then 3
          else if a = 239 \<and> take 2 r = [187, 191] then 3
          else 0)"

function skip_whitespace :: "string \<Rightarrow> string" where
  "skip_whitespace s =
     (if s = [] \<or> whitespace_width s = 0 then s
      else skip_whitespace (drop (whitespace_width s) s))"
  by pat_completeness auto
termination
  by (relation "measure length") auto

declare skip_whitespace.simps [simp del]

definition is_digit :: "char \<Rightarrow> bool" where
  "is_digit c = (48 \<le> (of_char c :: nat) \<and> (of_char c :: nat) \<le> 57)"

definition digit_value :: "char \<Rightarrow> nat" where
  "digit_value c = of_char c - 48"

definition digits_value :: "string \<Rightarrow> nat" where
  "digits_value z = foldl (\<lambda>a c. 10 * a + digit_value c) 0 z"

text \<open>
  The number value of a natural number \<open>n\<close>, which is what \<open>parseInt\<close> returns for the
  integer it has read: \<open>n\<close> itself below \<open>2 ^ 53\<close>; beyond, \<open>n\<close> rounded to 53 significant
  bits, a tie going to the even neighbour; and the infinity when the rounded value
  reaches \<open>2 ^ 1024\<close>. \<open>bit_length n\<close> is the number of binary digits of \<open>n\<close>.
\<close>

fun bit_length :: "nat \<Rightarrow> nat" where
  "bit_length n = (if n = 0 then 0 else Suc (bit_length (n div 2)))"

declare bit_length.simps [simp del]

definition to_double :: "nat \<Rightarrow> js_number" where
  "to_double n =
     (if n < 2 ^ 53 then Fin (of_nat n)
      else (let e = bit_length n - 53;
                q = n div 2 ^ e;
                r = n mod 2 ^ e;
                up = (2 ^ e < 2 * r \<or> 2 * r = 2 ^ e \<and> odd q);
                m = (if up then q + 1 else q) * 2 ^ e
            in if 2 ^ 1024 \<le> m then PosInf else Fin (of_nat m)))"

text \<open>Unary minus.\<close>

fun js_negate :: "js_number \<Rightarrow> js_number" where
  "js_negate NaN = NaN"
| "js_negate NegInf = PosInf"
| "js_negate (Fin r) = Fin (- r)"
| "js_negate PosInf = NegInf"

text \<open>
  Skip the white space, read one optional sign, take the longest run of decimal digits;
  no digit gives \<open>NaN\<close>. With radix 10 no \<open>0x\<close> prefix is recognised. The digits are read
  as the integer they write, all of them (the leave to drop digits after the twentieth
  is not taken), and the signed integer is rounded to a number.
\<close>

definition parseInt10 :: "string \<Rightarrow> js_number" where
  "parseInt10 s =
     (let t = skip_whitespace s;
          neg = (case t of [] \<Rightarrow> False | c # _ \<Rightarrow> c = CHR ''-'');
          u = (case t of [] \<Rightarrow> [] | c # r \<Rightarrow> if c = CHR ''-'' \<or> c = CHR ''+'' then r else t);
          z = takeWhile is_digit u
      in if z = [] then NaN
         else if neg then js_negate (to_double (digits_value z))
         else to_double (digits_value z))"

text \<open>\<open>a || d\<close> for an optional number \<open>a\<close> and a number \<open>d\<close>.\<close>

definition or_number :: "js_number option \<Rightarrow> js_number \<Rightarrow> js_number" where
  "or_number a d = (case a of None \<Rightarrow> d | Some v \<Rightarrow> if truthy_number a then v else d)"

subsection \<open>JSON values and dynamic property reads\<close>

text \<open>
  What \<open>JSON.parse\<close> returns. An object is the list of its properties, each key once.
  \<open>undefined\<close> is not a JSON value: a JavaScript value that may be \<open>undefined\<close> is a
  \<open>json option\<close>.
\<close>

datatype json =
    JNull
  | JBool bool
  | JNum rat
  | JStr string
  | JArr "json list"
  | JObj "(string \<times> json) list"

fun truthy_json :: "json \<Rightarrow> bool" where
  "truthy_json JNull = False"
| "truthy_json (JBool b) = b"
| "truthy_json (JNum r) = (r \<noteq> 0)"
| "truthy_json (JStr s) = (s \<noteq> [])"
| "truthy_json (JArr _) = True"
| "truthy_json (JObj _) = True"

text \<open>A field that is missing or falsy (\<open>null\<close>, \<open>false\<close>, \<open>0\<close>, the empty string).\<close>

definition missing_or_falsy :: "json option \<Rightarrow> bool" where
  "missing_or_falsy v = (case v of None \<Rightarrow> True | Some j \<Rightarrow> \<not> truthy_json j)"

text \<open>\<open>a || d\<close> where \<open>a\<close> may be \<open>undefined\<close> and \<open>d\<close> is a value.\<close>

definition or_json :: "json option \<Rightarrow> json \<Rightarrow> json" where
  "or_json a d = (case a of None \<Rightarrow> d | Some v \<Rightarrow> if truthy_json v then v else d)"

text \<open>
  The errors the client raises or meets. \<open>Error\<close>, \<open>TypeError\<close> and \<open>SyntaxError\<close> are
  the built-in classes with their message; the next three are the classes of
  \<open>utils/errors.ts\<close> with the arguments the client passes to their constructors (the
  message of a \<open>GitLabApiError\<close> comes from an untyped JSON body, and so is a JSON value);
  \<open>NonError\<close> is a thrown value that is not an instance of \<open>Error\<close>.
\<close>

datatype js_error =
    Error string
  | TypeError string
  | SyntaxError string
  | AuthenticationError string
  | RateLimitError string js_number
  | GitLabApiError json nat
  | NonError json

text \<open>\<open>e instanceof Error\<close> and \<open>e instanceof AuthenticationError\<close>.\<close>

fun instanceof_Error :: "js_error \<Rightarrow> bool" where
  "instanceof_Error (NonError _) = False"
| "instanceof_Error _ = True"


text \<open>
  Reading property \<open>k\<close> of a value: \<open>null\<close> and \<open>undefined\<close> throw a \<open>TypeError\<close>
  (worded as V8 words it), an object gives its property or \<open>undefined\<close>, an array and
  a string have a \<open>length\<close>. The client reads the names \<open>message\<close>, \<open>error\<close>,
  \<open>username\<close> and \<open>length\<close> only; no prototype defines the first three.
\<close>

fun js_get :: "json option \<Rightarrow> string \<Rightarrow> js_error + json option" where
  "js_get None k =
     Inl (TypeError (''Cannot read properties of undefined (reading '' @ [CHR 0x27] @ k @ [CHR 0x27] @ '')''))"
| "js_get (Some JNull) k =
     Inl (TypeError (''Cannot read properties of null (reading '' @ [CHR 0x27] @ k @ [CHR 0x27] @ '')''))"
| "js_get (Some (JObj kvs)) k = Inr (map_of kvs k)"
| "js_get (Some (JArr xs)) k =
     Inr (if k = ''length'' then Some (JNum (of_nat (length xs))) else None)"
| "js_get (Some (JStr s)) k =
     Inr (if k = ''length'' then Some (JNum (of_nat (js_string_length s))) else None)"
| "js_get (Some (JBool _)) k = Inr None"
| "js_get (Some (JNum _)) k = Inr None"

text \<open>
  \<open>String(v)\<close>, which a template literal and the \<open>Error\<close> constructor apply. The text of
  a number is left to the parameter \<open>num\<close> (see \<open>Number_toString\<close> below). An array
  joins its elements with commas, \<open>null\<close> elements printing as nothing.
\<close>

fun join_comma :: "string list \<Rightarrow> string" where
  "join_comma [] = []"
| "join_comma [x] = x"
| "join_comma (x # y # r) = x @ '','' @ join_comma (y # r)"

fun js_to_string :: "(js_number \<Rightarrow> string) \<Rightarrow> json \<Rightarrow> string" where
  "js_to_string num JNull = ''null''"
| "js_to_string num (JBool b) = (if b then ''true'' else ''false'')"
| "js_to_string num (JNum r) = num (Fin r)"
| "js_to_string num (JStr s) = s"
| "js_to_string num (JArr xs) =
     join_comma (map (\<lambda>x. if x = JNull then [] else js_to_string num x) xs)"
| "js_to_string num (JObj kvs) = ''[object Object]''"

definition js_to_string_opt :: "(js_number \<Rightarrow> string) \<Rightarrow> json option \<Rightarrow> string" where
  "js_to_string_opt num v = (case v of None \<Rightarrow> ''undefined'' | Some j \<Rightarrow> js_to_string num j)"

text \<open>
  Modelled from the spec: \<open>utils/errors.ts\<close>, which declares \<open>AuthenticationError\<close>,
  \<open>RateLimitError\<close> and \<open>GitLabApiError\<close>, is not among the sources. Following the
  error taxonomy of the specification each of them carries the message it was built
  with, that is, hands its first argument to the \<open>Error\<close> constructor, which turns it
  into a string. \<open>error_message e\<close> is \<open>e.message\<close>.
\<close>

fun error_message :: "(js_number \<Rightarrow> string) \<Rightarrow> js_error \<Rightarrow> string" where
  "error_message num (Error m) = m"
| "error_message num (TypeError m) = m"
| "error_message num (SyntaxError m) = m"
| "error_message num (AuthenticationError m) = m"
| "error_message num (RateLimitError m _) = m"
| "error_message num (GitLabApiError m _) = js_to_string num m"
| "error_message num (NonError v) = js_to_string_opt num (case js_get (Some v) ''message'' of Inl _ \<Rightarrow> None | Inr w \<Rightarrow> w)"

text \<open>
  Whether the message an error was built with is a string. It is one for every error of
  the client but a \<open>GitLabApiError\<close> whose message is a field of a JSON body, which may
  hold any value.
\<close>

fun string_message :: "js_error \<Rightarrow> bool" where
  "string_message (GitLabApiError (JStr _) _) = True"
| "string_message (GitLabApiError _ _) = False"
| "string_message (NonError _) = False"
| "string_message _ = True"

section \<open>Pagination utilities (utils/pagination.ts)\<close>

record pagination_params =
  perPage :: "js_number option"
  page :: "js_number option"

definition PAGINATION_DEFAULTS_perPage :: js_number where
  "PAGINATION_DEFAULTS_perPage = Fin 20"

definition PAGINATION_DEFAULTS_maxPerPage :: js_number where
  "PAGINATION_DEFAULTS_maxPerPage = Fin 100"

text \<open>
  \<open>normalizePaginationParams(params?, maxPerPage = PAGINATION_DEFAULTS.maxPerPage)\<close>.
  Both arguments are optional; \<open>params?.perPage || 20\<close> takes the default for every falsy
  value.
\<close>

definition normalizePaginationParams ::
  "pagination_params option \<Rightarrow> js_number option \<Rightarrow> pagination_params" where
  "normalizePaginationParams params maxPerPage_arg =
     (let maxPerPage = (case maxPerPage_arg of None \<Rightarrow> PAGINATION_DEFAULTS_maxPerPage
                        | Some m \<Rightarrow> m);
          pp = (case params of None \<Rightarrow> None | Some p \<Rightarrow> perPage p);
          pg = (case params of None \<Rightarrow> None | Some p \<Rightarrow> page p)
      in \<lparr> perPage = Some (Math_min (or_number pp PAGINATION_DEFAULTS_perPage) maxPerPage),
           page = pg \<rparr>)"

text \<open>
  The envelope of a list call (\<open>PaginatedResponse\<close> of \<open>types/entities.ts\<close>).
  \<open>items\<close> is whatever the body decoded to and \<open>count\<close> its \<open>length\<close> property, which
  is \<open>undefined\<close> for a value that has none.
\<close>

record paginated_response =
  items :: json
  count :: "json option"
  total :: "js_number option"
  hasMore :: bool
  page_r :: "js_number option"
  nextPage :: "js_number option"
  totalPages :: "js_number option"

text \<open>\<open>emptyPaginatedResponse()\<close>.\<close>

definition emptyPaginatedResponse :: paginated_response where
  "emptyPaginatedResponse =
     \<lparr> items = JArr [], count = Some (JNum 0), total = None, hasMore = False,
       page_r = None, nextPage = None, totalPages = None \<rparr>"

text \<open>The \<open>options\<close> argument of \<open>createPaginatedResponse\<close>, every field optional.\<close>

record paginated_options =
  total_o :: "js_number option"
  page_o :: "js_number option"
  totalPages_o :: "js_number option"
  nextPage_o :: "js_number option"
  hasMore_o :: "bool option"

text \<open>
  \<open>createPaginatedResponse(items, options = {})\<close>, the constructor of the envelope;
  \<open>options.hasMore ?? (options.nextPage !== undefined)\<close>.
\<close>

definition createPaginatedResponse :: "json list \<Rightarrow> paginated_options \<Rightarrow> paginated_response" where
  "createPaginatedResponse its options =
     \<lparr> items = JArr its,
       count = Some (JNum (of_nat (length its))),
       total = total_o options,
       hasMore = (case hasMore_o options of Some b \<Rightarrow> b | None \<Rightarrow> nextPage_o options \<noteq> None),
       page_r = page_o options,
       nextPage = nextPage_o options,
       totalPages = totalPages_o options \<rparr>"

text \<open>
  A \<open>Headers\<close> object is its \<open>get\<close> method: the value of a header, or \<open>null\<close>. The
  platform compares header names without regard to case; the model looks a header up
  under the name the code spells.
\<close>

type_synonym headers = "string \<Rightarrow> string option"

text \<open>\<open>h ? parseInt(h, 10) : undefined\<close> for a header value \<open>h\<close>.\<close>

definition header_int :: "string option \<Rightarrow> js_number option" where
  "header_int h = (case h of None \<Rightarrow> None | Some v \<Rightarrow> if truthy_string h then Some (parseInt10 v) else None)"

record pagination_headers =
  total_h :: "js_number option"
  totalPages_h :: "js_number option"
  page_h :: "js_number option"
  nextPage_h :: "js_number option"
  perPage_h :: "js_number option"

text \<open>\<open>parseGitLabPaginationHeaders(headers)\<close>.\<close>

definition parseGitLabPaginationHeaders :: "headers \<Rightarrow> pagination_headers" where
  "parseGitLabPaginationHeaders hs =
     (let total = hs ''X-Total'';
          totalPages = hs ''X-Total-Pages'';
          page = hs ''X-Page'';
          nextPage = hs ''X-Next-Page'';
          perPage = hs ''X-Per-Page''
      in \<lparr> total_h = header_int total,
           totalPages_h = header_int totalPages,
           page_h = header_int page,
           nextPage_h = header_int nextPage,
           perPage_h = header_int perPage \<rparr>)"

section \<open>Tenant credentials (types/env.ts)\<close>

record tenant_credentials =
  privateToken :: "string option"
  baseUrl :: "string option"
  accessToken :: "string option"




section \<open>The host: \<open>fetch\<close>, \<open>JSON.parse\<close>, encoders\<close>

text \<open>
  The second argument of \<open>fetch\<close> (\<open>RequestInit\<close>), with the three fields the client
  sets. \<open>headers\<close> is a plain object, kept as the list of its properties in order.
\<close>

record request_init =
  http_method :: "string option"
  body :: "string option"
  headers :: "(string \<times> string) list option"

definition empty_init :: request_init where
  "empty_init = \<lparr> http_method = None, body = None, headers = None \<rparr>"

record http_response =
  status :: nat
  headers_r :: headers
  text_r :: string

text \<open>\<open>response.ok\<close>.\<close>

definition ok :: "http_response \<Rightarrow> bool" where
  "ok response = (200 \<le> status response \<and> status response \<le> 299)"

text \<open>
  What the client calls and this development does not define: the transport \<open>fetch(url,
  init)\<close>, which resolves to a response or rejects; \<open>JSON.parse\<close>, which returns a value
  or throws a \<open>SyntaxError\<close> (\<open>response.json()\<close> is \<open>JSON.parse\<close> of the body text);
  \<open>JSON.stringify\<close> on the objects that become a request body; and the decimal text
  \<open>String(n)\<close> of a number.
\<close>

record runtime =
  fetch :: "string \<Rightarrow> request_init \<Rightarrow> js_error + http_response"
  JSON_parse :: "string \<Rightarrow> js_error + json"
  JSON_stringify :: "json \<Rightarrow> string"
  Number_toString :: "js_number \<Rightarrow> string"

text \<open>
  The outcome of an asynchronous client method: the value it resolves to or the error it
  rejects with, and the calls of \<open>fetch\<close> made on the way (each with its two arguments).
\<close>

type_synonym 'a outcome = "(js_error + 'a) \<times> (string \<times> request_init) list"

text \<open>
  \<open>{...a, ...b}\<close> on two plain objects: the properties of \<open>a\<close> in their order, with
  the value from \<open>b\<close> where \<open>b\<close> has the key too, then the other properties of \<open>b\<close>.
\<close>

definition spread :: "(string \<times> string) list \<Rightarrow> (string \<times> string) list \<Rightarrow> (string \<times> string) list" where
  "spread a b =
     map (\<lambda>(k, v). (k, case map_of b k of None \<Rightarrow> v | Some w \<Rightarrow> w)) a
     @ filter (\<lambda>(k, v). map_of a k = None) b"

text \<open>The upper-case hexadecimal digit for a value below 16: \<open>0\<close> to \<open>9\<close>, then \<open>A\<close> to \<open>F\<close>.\<close>

definition hex_digit :: "nat \<Rightarrow> char" where
  "hex_digit n = char_of (if n < 10 then 48 + n else 55 + n)"

definition percent_encode :: "char \<Rightarrow> string" where
  "percent_encode c = [CHR ''%'', hex_digit (of_char c div 16), hex_digit (of_char c mod 16)]"

definition is_alnum :: "char \<Rightarrow> bool" where
  "is_alnum c =
     (let n = (of_char c :: nat)
      in 48 \<le> n \<and> n \<le> 57 \<or> 65 \<le> n \<and> n \<le> 90 \<or> 97 \<le> n \<and> n \<le> 122)"

text \<open>
  \<open>encodeURIComponent(s)\<close>: letters, digits and \<open>- _ . ! ~ * ' ( )\<close> stay, every other
  byte of the UTF-8 encoding becomes \<open>%XX\<close>. The function throws a \<open>URIError\<close> on a lone
  surrogate only, which no string of this development holds.
\<close>

definition uri_unreserved :: "char \<Rightarrow> bool" where
  "uri_unreserved c = (is_alnum c \<or> c \<in> set ''-_.!~*()'' \<or> c = CHR 0x27)"

definition encodeURIComponent :: "string \<Rightarrow> string" where
  "encodeURIComponent s = concat (map (\<lambda>c. if uri_unreserved c then [c] else percent_encode c) s)"



text \<open>
  \<open>URLSearchParams.toString()\<close>: the \<open>application/x-www-form-urlencoded\<close> serialisation,
  where letters, digits and \<open>* - . _\<close> stay, a space becomes \<open>+\<close> and every other byte
  \<open>%XX\<close>; pairs are joined by \<open>&\<close>.
\<close>

definition form_urlencode :: "string \<Rightarrow> string" where
  "form_urlencode s =
     concat (map (\<lambda>c. if is_alnum c \<or> c \<in> set ''*-._'' then [c]
                      else if c = CHR '' '' then ''+'' else percent_encode c) s)"

fun URLSearchParams_toString :: "(string \<times> string) list \<Rightarrow> string" where
  "URLSearchParams_toString [] = []"
| "URLSearchParams_toString [(k, v)] = form_urlencode k @ ''='' @ form_urlencode v"
| "URLSearchParams_toString ((k, v) # kv # r) =
     form_urlencode k @ ''='' @ form_urlencode v @ ''&'' @ URLSearchParams_toString (kv # r)"

text \<open>An identifier typed \<open>string | number\<close>, and \<open>String(id)\<close>.\<close>

datatype resource_id = IdString string | IdNumber js_number

fun String_id :: "runtime \<Rightarrow> resource_id \<Rightarrow> string" where
  "String_id rt (IdString s) = s"
| "String_id rt (IdNumber n) = Number_toString rt n"

subsection \<open>The path of a URL\<close>












section \<open>The GitLab client (client.ts)\<close>

definition DEFAULT_API_BASE_URL :: string where
  "DEFAULT_API_BASE_URL = ''https://gitlab.com/api/v4''"

text \<open>The two private fields of \<open>GitLabClientImpl\<close>.\<close>

record client =
  this_credentials :: tenant_credentials
  this_baseUrl :: string

text \<open>
  \<open>createGitLabClient(credentials)\<close>, that is the constructor:
  \<open>this.baseUrl = credentials.baseUrl || DEFAULT_API_BASE_URL\<close>.
\<close>

definition createGitLabClient :: "tenant_credentials \<Rightarrow> client" where
  "createGitLabClient credentials =
     \<lparr> this_credentials = credentials,
       this_baseUrl = (case baseUrl credentials of
                         None \<Rightarrow> DEFAULT_API_BASE_URL
                       | Some b \<Rightarrow> if b \<noteq> [] then b else DEFAULT_API_BASE_URL) \<rparr>"

text \<open>\<open>getAuthHeaders()\<close>: the bearer token first, then the private token, else throw.\<close>

definition getAuthHeaders :: "client \<Rightarrow> js_error + (string \<times> string) list" where
  "getAuthHeaders this =
     (let no_access =
            (case privateToken (this_credentials this) of
               Some t \<Rightarrow>
                 if t \<noteq> [] then Inr [(''PRIVATE-TOKEN'', t), (''Content-Type'', ''application/json'')]
                 else Inl (AuthenticationError ''No credentials provided. Include X-GitLab-Token or X-GitLab-Access-Token header.'')
             | None \<Rightarrow> Inl (AuthenticationError ''No credentials provided. Include X-GitLab-Token or X-GitLab-Access-Token header.''))
      in case accessToken (this_credentials this) of
           Some t \<Rightarrow>
             if t \<noteq> [] then Inr [(''Authorization'', ''Bearer '' @ t), (''Content-Type'', ''application/json'')]
             else no_access
         | None \<Rightarrow> no_access)"

text \<open>The names of the authentication headers among the headers of a call.\<close>

definition auth_header_names :: "(string \<times> string) list \<Rightarrow> string list" where
  "auth_header_names hs = filter (\<lambda>k. k = ''Authorization'' \<or> k = ''PRIVATE-TOKEN'') (map fst hs)"

text \<open>
  The message of a \<open>GitLabApiError\<close>: \<open>errorJson.message || errorJson.error || message\<close>
  inside a \<open>try\<close> whose \<open>catch\<close> keeps the default, so that a body that does not parse and a
  body that is \<open>null\<close> (reading a property of it throws) both give the default.
\<close>

definition api_error_message :: "runtime \<Rightarrow> http_response \<Rightarrow> json" where
  "api_error_message rt response =
     (let errorBody = text_r response;
          message = JStr (''API error: '' @ show_nat (status response))
      in case JSON_parse rt errorBody of
           Inl _ \<Rightarrow> message
         | Inr errorJson \<Rightarrow>
             (case js_get (Some errorJson) ''message'' of
                Inl _ \<Rightarrow> message
              | Inr m \<Rightarrow>
                  (case js_get (Some errorJson) ''error'' of
                     Inl _ \<Rightarrow> message
                   | Inr e \<Rightarrow> or_json m (or_json e message))))"

text \<open>
  The three \<open>if\<close> blocks that follow \<open>fetch\<close> in \<open>request\<close> and, word for word, in
  \<open>requestWithPagination\<close>: the error thrown for the response, if any.
\<close>

definition status_error :: "runtime \<Rightarrow> http_response \<Rightarrow> js_error option" where
  "status_error rt response =
     (if status response = 429 then
        (let retryAfter = headers_r response ''Retry-After''
         in Some (RateLimitError ''Rate limit exceeded''
                    (case retryAfter of
                       None \<Rightarrow> Fin 60
                     | Some v \<Rightarrow> if v \<noteq> [] then parseInt10 v else Fin 60)))
      else if status response = 401 \<or> status response = 403 then
        Some (AuthenticationError ''Authentication failed. Check your GitLab credentials.'')
      else if \<not> ok response then
        Some (GitLabApiError (api_error_message rt response) (status response))
      else None)"

text \<open>
  The second argument both executors hand to \<open>fetch\<close>:
  \<open>{...options, headers: {...this.getAuthHeaders(), ...(options.headers || {})}}\<close>.
\<close>

definition with_auth :: "(string \<times> string) list \<Rightarrow> request_init \<Rightarrow> request_init" where
  "with_auth auth options =
     options \<lparr> headers := Some (spread auth (case headers options of None \<Rightarrow> [] | Some h \<Rightarrow> h)) \<rparr>"

text \<open>
  \<open>request(endpoint, options = {})\<close>, the single-resource executor. The headers are built
  while the arguments of \<open>fetch\<close> are evaluated, so a throw of \<open>getAuthHeaders\<close> comes
  before the call. A 204 resolves to \<open>undefined\<close>.
\<close>

definition request :: "runtime \<Rightarrow> client \<Rightarrow> string \<Rightarrow> request_init \<Rightarrow> json option outcome" where
  "request rt this endpoint options =
     (let url = this_baseUrl this @ endpoint
      in case getAuthHeaders this of
           Inl e \<Rightarrow> (Inl e, [])
         | Inr auth \<Rightarrow>
             (let init = with_auth auth options
              in case fetch rt url init of
                   Inl e \<Rightarrow> (Inl e, [(url, init)])
                 | Inr response \<Rightarrow>
                     ((case status_error rt response of
                         Some e \<Rightarrow> Inl e
                       | None \<Rightarrow>
                           if status response = 204 then Inr None
                           else (case JSON_parse rt (text_r response) of
                                   Inl e \<Rightarrow> Inl e
                                 | Inr j \<Rightarrow> Inr (Some j))),
                      [(url, init)])))"

text \<open>
  The first statements of \<open>requestWithPagination\<close>: the URL of a list call, with
  \<open>per_page\<close> and \<open>page\<close> appended for the truthy ones of \<open>params?.perPage\<close> and
  \<open>params?.page\<close>.
\<close>

definition list_url :: "runtime \<Rightarrow> client \<Rightarrow> string \<Rightarrow> pagination_params option \<Rightarrow> string" where
  "list_url rt this endpoint params =
     (let pp = (case params of None \<Rightarrow> None | Some p \<Rightarrow> perPage p);
          pg = (case params of None \<Rightarrow> None | Some p \<Rightarrow> page p);
          queryParams =
            (case pp of None \<Rightarrow> []
             | Some n \<Rightarrow> if truthy_number pp then [(''per_page'', Number_toString rt n)] else [])
            @ (case pg of None \<Rightarrow> []
               | Some n \<Rightarrow> if truthy_number pg then [(''page'', Number_toString rt n)] else []);
          separator = (if CHR ''?'' \<in> set endpoint then ''&'' else ''?'');
          queryString = URLSearchParams_toString queryParams
      in this_baseUrl this @ endpoint @ (if queryString \<noteq> [] then separator @ queryString else []))"

text \<open>
  \<open>requestWithPagination(endpoint, params?, options = {})\<close>, the paginated-list executor.
  The object it returns has no \<open>page\<close> property.
\<close>

definition requestWithPagination ::
  "runtime \<Rightarrow> client \<Rightarrow> string \<Rightarrow> pagination_params option \<Rightarrow> request_init \<Rightarrow> paginated_response outcome" where
  "requestWithPagination rt this endpoint params options =
     (let url = list_url rt this endpoint params
      in case getAuthHeaders this of
           Inl e \<Rightarrow> (Inl e, [])
         | Inr auth \<Rightarrow>
             (let init = with_auth auth options
              in case fetch rt url init of
                   Inl e \<Rightarrow> (Inl e, [(url, init)])
                 | Inr response \<Rightarrow>
                     ((case status_error rt response of
                         Some e \<Rightarrow> Inl e
                       | None \<Rightarrow>
                           (case JSON_parse rt (text_r response) of
                              Inl e \<Rightarrow> Inl e
                            | Inr its \<Rightarrow>
                                (let total = header_int (headers_r response ''X-Total'');
                                     totalPages = header_int (headers_r response ''X-Total-Pages'');
                                     nextPage = header_int (headers_r response ''X-Next-Page'')
                                 in case js_get (Some its) ''length'' of
                                      Inl e \<Rightarrow> Inl e
                                    | Inr len \<Rightarrow>
                                        Inr \<lparr> items = its, count = len, total = total,
                                              hasMore = (nextPage \<noteq> None), page_r = None,
                                              nextPage = nextPage, totalPages = totalPages \<rparr>))),
                      [(url, init)])))"

subsection \<open>Operations\<close>

text \<open>\<open>getCurrentUser()\<close>.\<close>

definition getCurrentUser :: "runtime \<Rightarrow> client \<Rightarrow> json option outcome" where
  "getCurrentUser rt this = request rt this ''/user'' empty_init"

subsection \<open>Query strings\<close>







subsection \<open>The methods that take a project or a group identifier\<close>



text \<open>
  The methods of the client that take a project or a group identifier and go through
  \<open>request\<close>, grouped as the source groups them. Each takes the identifier first; a
  constructor holds the arguments that follow it: an \<open>input\<close> object is a JSON value, a
  number such as \<open>mrIid\<close> a \<open>js_number\<close>. With each group comes the endpoint and the
  options that its methods hand to \<open>request\<close>; a template literal prints a string as it is
  and a number through \<open>String\<close>.
\<close>









































text \<open>The two reads of raw text, which call \<open>fetch\<close> themselves.\<close>

definition getFileRaw :: "runtime \<Rightarrow> client \<Rightarrow> resource_id \<Rightarrow> string \<Rightarrow> string \<Rightarrow> string outcome" where
  "getFileRaw rt this projectId filePath ref =
     (let projectEncoded = encodeURIComponent (String_id rt projectId);
          fileEncoded = encodeURIComponent filePath;
          url = this_baseUrl this @ ''/projects/'' @ projectEncoded @ ''/repository/files/''
                @ fileEncoded @ ''/raw?ref='' @ encodeURIComponent ref
      in case getAuthHeaders this of
           Inl e \<Rightarrow> (Inl e, [])
         | Inr auth \<Rightarrow>
             (let init = \<lparr> http_method = None, body = None, headers = Some auth \<rparr>
              in case fetch rt url init of
                   Inl e \<Rightarrow> (Inl e, [(url, init)])
                 | Inr response \<Rightarrow>
                     (if \<not> ok response then
                        Inl (GitLabApiError (JStr (''Failed to get file: '' @ show_nat (status response)))
                               (status response))
                      else Inr (text_r response),
                      [(url, init)])))"

definition getJobLog :: "runtime \<Rightarrow> client \<Rightarrow> resource_id \<Rightarrow> js_number \<Rightarrow> string outcome" where
  "getJobLog rt this projectId jobId =
     (let encoded = encodeURIComponent (String_id rt projectId);
          url = this_baseUrl this @ ''/projects/'' @ encoded @ ''/jobs/''
                @ Number_toString rt jobId @ ''/trace''
      in case getAuthHeaders this of
           Inl e \<Rightarrow> (Inl e, [])
         | Inr auth \<Rightarrow>
             (let init = \<lparr> http_method = None, body = None, headers = Some auth \<rparr>
              in case fetch rt url init of
                   Inl e \<Rightarrow> (Inl e, [(url, init)])
                 | Inr response \<Rightarrow>
                     (if \<not> ok response then
                        Inl (GitLabApiError (JStr (''Failed to get job log: '' @ show_nat (status response)))
                               (status response))
                      else Inr (text_r response),
                      [(url, init)])))"

subsection \<open>\<open>testConnection\<close>\<close>

record connection_result =
  connected :: bool
  message :: string
  user :: "json option"

text \<open>
  The \<open>catch\<close> block of \<open>testConnection\<close>:
  \<open>error instanceof Error ? error.message : 'Connection failed'\<close>.
\<close>

definition connection_failed :: "runtime \<Rightarrow> js_error \<Rightarrow> connection_result" where
  "connection_failed rt error =
     \<lparr> connected = False,
       message = (if instanceof_Error error then error_message (Number_toString rt) error
                  else ''Connection failed''),
       user = None \<rparr>"

text \<open>
  \<open>testConnection()\<close>. The \<open>try\<close> block covers the call of \<open>getCurrentUser\<close> and the
  reading of \<open>user.username\<close> for the template literal; what either throws goes to the
  \<open>catch\<close> block. The result type still has an error side, so that not throwing is a
  property to prove.
\<close>

definition testConnection :: "runtime \<Rightarrow> client \<Rightarrow> connection_result outcome" where
  "testConnection rt this =
     (case getCurrentUser rt this of
        (r, calls) \<Rightarrow>
          ((case r of
              Inl error \<Rightarrow> Inr (connection_failed rt error)
            | Inr u \<Rightarrow>
                (case js_get u ''username'' of
                   Inl error \<Rightarrow> Inr (connection_failed rt error)
                 | Inr username \<Rightarrow>
                     Inr \<lparr> connected = True,
                           message = ''Connected as '' @ js_to_string_opt (Number_toString rt) username,
                           user = u \<rparr>)),
           calls))"

section \<open>The worker entry point (index.ts)\<close>

record inbound_request =
  pathname :: string
  method_in :: string
  headers_in :: headers



section \<open>Fixtures for the examples\<close>

text \<open>A \<open>Headers\<close> object that holds the listed headers.\<close>

definition header_list :: "(string \<times> string) list \<Rightarrow> headers" where
  "header_list kvs = map_of kvs"

text \<open>
  \<open>String(n)\<close> on the numbers of the examples: exact for \<open>NaN\<close>, the infinities and the
  integers below \<open>10 ^ 21\<close> in magnitude.
\<close>

definition number_text :: "js_number \<Rightarrow> string" where
  "number_text n =
     (case n of
        NaN \<Rightarrow> ''NaN''
      | PosInf \<Rightarrow> ''Infinity''
      | NegInf \<Rightarrow> ''-Infinity''
      | Fin r \<Rightarrow> (if r < 0 then ''-'' else []) @ show_nat (nat \<lfloor>\<bar>r\<bar>\<rfloor>))"

text \<open>\<open>JSON.parse\<close> on the bodies of the examples; any other text is refused.\<close>

definition sample_parse :: "string \<Rightarrow> js_error + json" where
  \<open>sample_parse s =
     (if s = ''[]'' then Inr (JArr [])
      else if s = ''[{"key":"CI_TOKEN"}]'' then Inr (JArr [JObj [(''key'', JStr ''CI_TOKEN'')]])
      else if s = ''{"username":"octo"}'' then Inr (JObj [(''username'', JStr ''octo'')])
      else if s = ''{"message":"404 Project Not Found"}''
        then Inr (JObj [(''message'', JStr ''404 Project Not Found'')])
      else if s = ''{"error":"invalid_token"}'' then Inr (JObj [(''error'', JStr ''invalid_token'')])
      else if s = ''{"message":"","error":"Not Found"}''
        then Inr (JObj [(''message'', JStr []), (''error'', JStr ''Not Found'')])
      else if s = ''null'' then Inr JNull
      else Inl (SyntaxError ''Unexpected token < in JSON at position 0''))\<close>

text \<open>\<open>JSON.stringify\<close> on the bodies of the examples, which send the empty object only.\<close>

definition sample_stringify :: "json \<Rightarrow> string" where
  "sample_stringify j = (if j = JObj [] then ''{}'' else ''null'')"

text \<open>A mock transport that answers every call with the same response.\<close>

definition mock_runtime :: "http_response \<Rightarrow> runtime" where
  "mock_runtime response =
     \<lparr> fetch = (\<lambda>url init. Inr response), JSON_parse = sample_parse,
       JSON_stringify = sample_stringify, Number_toString = number_text \<rparr>"

text \<open>Clients holding a private token, both tokens, and none.\<close>

definition private_client :: client where
  "private_client =
     createGitLabClient \<lparr> privateToken = Some ''glpat-1'', baseUrl = None, accessToken = None \<rparr>"

definition both_client :: client where
  "both_client =
     createGitLabClient
       \<lparr> privateToken = Some ''glpat-1'', baseUrl = None, accessToken = Some ''oauth-2'' \<rparr>"

definition anonymous_client :: client where
  "anonymous_client =
     createGitLabClient \<lparr> privateToken = None, baseUrl = None, accessToken = None \<rparr>"

text \<open>Responses of the examples.\<close>

definition forbidden_response :: http_response where
  \<open>forbidden_response =
     \<lparr> status = 403, headers_r = header_list [], text_r = ''{"message":"404 Project Not Found"}'' \<rparr>\<close>

definition rate_limited_30 :: http_response where
  "rate_limited_30 =
     \<lparr> status = 429, headers_r = header_list [(''Retry-After'', ''30'')], text_r = [] \<rparr>"

definition rate_limited_plain :: http_response where
  "rate_limited_plain = \<lparr> status = 429, headers_r = header_list [], text_r = [] \<rparr>"

definition rate_limited_date :: http_response where
  "rate_limited_date =
     \<lparr> status = 429,
       headers_r = header_list [(''Retry-After'', ''Wed, 21 Oct 2015 07:28:00 GMT'')],
       text_r = [] \<rparr>"

definition not_found_response :: http_response where
  \<open>not_found_response =
     \<lparr> status = 404, headers_r = header_list [], text_r = ''{"message":"404 Project Not Found"}'' \<rparr>\<close>

definition invalid_token_response :: http_response where
  \<open>invalid_token_response =
     \<lparr> status = 400, headers_r = header_list [], text_r = ''{"error":"invalid_token"}'' \<rparr>\<close>

definition bad_gateway_response :: http_response where
  "bad_gateway_response =
     \<lparr> status = 502, headers_r = header_list [], text_r = ''<html>Bad Gateway</html>'' \<rparr>"

definition server_error_response :: http_response where
  "server_error_response =
     \<lparr> status = 500, headers_r = header_list [], text_r = ''<html>Internal Server Error</html>'' \<rparr>"

definition user_response :: http_response where
  \<open>user_response =
     \<lparr> status = 200, headers_r = header_list [], text_r = ''{"username":"octo"}'' \<rparr>\<close>

definition variables_page :: http_response where
  \<open>variables_page =
     \<lparr> status = 200,
       headers_r = header_list [(''X-Total'', ''42''), (''X-Total-Pages'', ''3''), (''X-Next-Page'', ''2'')],
       text_r = ''[{"key":"CI_TOKEN"}]'' \<rparr>\<close>

text \<open>The first page of a list, with the four pagination headers.\<close>

definition first_page :: http_response where
  \<open>first_page =
     \<lparr> status = 200,
       headers_r = header_list [(''X-Total'', ''42''), (''X-Total-Pages'', ''3''), (''X-Page'', ''1''),
                                (''X-Next-Page'', ''2'')],
       text_r = ''[{"key":"CI_TOKEN"}]'' \<rparr>\<close>

text \<open>A response without content, and a transport that fails with the error \<open>e\<close>.\<close>

definition no_content_response :: http_response where
  "no_content_response = \<lparr> status = 204, headers_r = header_list [], text_r = [] \<rparr>"

definition failing_runtime :: "js_error \<Rightarrow> runtime" where
  "failing_runtime e =
     \<lparr> fetch = (\<lambda>url init. Inl e), JSON_parse = sample_parse,
       JSON_stringify = sample_stringify, Number_toString = number_text \<rparr>"

definition empty_message_response :: http_response where
  \<open>empty_message_response =
     \<lparr> status = 404, headers_r = header_list [],
       text_r = ''{"message":"","error":"Not Found"}'' \<rparr>\<close>

text \<open>The call a client holding the private token makes to \<open>url\<close> with default options.\<close>

definition private_call :: "string \<Rightarrow> string \<times> request_init" where
  "private_call url =
     (url, \<lparr> http_method = None, body = None,
             headers = Some [(''PRIVATE-TOKEN'', ''glpat-1''), (''Content-Type'', ''application/json'')] \<rparr>)"

text \<open>An inbound MCP request that carries neither token header.\<close>

definition bare_request :: inbound_request where
  "bare_request =
     \<lparr> pathname = ''/mcp'', method_in = ''POST'',
       headers_in = header_list [(''Content-Type'', ''application/json'')] \<rparr>"

section \<open>Evaluation rules\<close>

lemmas parseInt_eval =
  parseInt10_def skip_whitespace.simps whitespace_width_def is_digit_def digits_value_def
  digit_value_def to_double_def

lemmas client_eval =
  createGitLabClient_def getAuthHeaders_def DEFAULT_API_BASE_URL_def with_auth_def spread_def
  empty_init_def
  private_client_def both_client_def anonymous_client_def

lemmas mock_eval =
  mock_runtime_def failing_runtime_def sample_parse_def header_list_def number_text_def

lemmas response_eval =
  forbidden_response_def rate_limited_30_def rate_limited_plain_def rate_limited_date_def
  not_found_response_def invalid_token_response_def bad_gateway_response_def
  server_error_response_def user_response_def variables_page_def first_page_def
  empty_message_response_def private_call_def bare_request_def

section \<open>The pagination default policy\<close>

lemma or_number_above:
  "js_less (Fin 100) n \<Longrightarrow> or_number (Some n) d = n"
  by (cases n) (auto simp: or_number_def)

lemma Math_min_above:
  "js_less (Fin 100) n \<Longrightarrow> Math_min n (Fin 100) = Fin 100"
  by (cases n) (auto simp: Math_min_def)

text \<open>
  C9. Called with the ceiling left at its default, \<open>normalizePaginationParams\<close> maps every
  \<open>perPage\<close> above 100 (the infinity included) to exactly 100, and maps a missing
  \<open>perPage\<close>, whether \<open>params\<close> is missing or only its field, to 20.
\<close>

theorem normalizePaginationParams_policy:
  "(perPage p = Some n \<and> js_less (Fin 100) n \<longrightarrow>
      perPage (normalizePaginationParams (Some p) None) = Some (Fin 100))
   \<and> (perPage p = None \<longrightarrow> perPage (normalizePaginationParams (Some p) None) = Some (Fin 20))
   \<and> perPage (normalizePaginationParams None None) = Some (Fin 20)"
  by (auto simp: normalizePaginationParams_def PAGINATION_DEFAULTS_perPage_def
      PAGINATION_DEFAULTS_maxPerPage_def or_number_above Math_min_above)
    (simp_all add: or_number_def Math_min_def)

theorem normalizePaginationParams_policy_witness:
  "js_less (Fin 100) (Fin 150)
   \<and> perPage (normalizePaginationParams (Some \<lparr> perPage = Some (Fin 150), page = Some (Fin 2) \<rparr>) None)
       = Some (Fin 100)
   \<and> perPage (normalizePaginationParams (Some \<lparr> perPage = None, page = Some (Fin 2) \<rparr>) None)
       = Some (Fin 20)"
  using normalizePaginationParams_policy [of "\<lparr> perPage = Some (Fin 150), page = Some (Fin 2) \<rparr>" "Fin 150"]
    normalizePaginationParams_policy [of "\<lparr> perPage = None, page = Some (Fin 2) \<rparr>" "Fin 150"]
  by simp

section \<open>The two executors\<close>

text \<open>
  What an executor did: nothing reached the transport when the headers could not be
  built, and otherwise one call went out, with the URL and the options shown.
\<close>

lemma request_calls:
  "snd (request rt this endpoint options) =
     (case getAuthHeaders this of
        Inl e \<Rightarrow> []
      | Inr auth \<Rightarrow> [(this_baseUrl this @ endpoint, with_auth auth options)])"
proof (cases "getAuthHeaders this")
  case (Inl e)
  then show ?thesis by (simp add: request_def)
next
  case (Inr auth)
  then show ?thesis
    by (cases "fetch rt (this_baseUrl this @ endpoint) (with_auth auth options)")
      (simp_all add: request_def)
qed

lemma requestWithPagination_calls:
  "snd (requestWithPagination rt this endpoint params options) =
     (case getAuthHeaders this of
        Inl e \<Rightarrow> []
      | Inr auth \<Rightarrow> [(list_url rt this endpoint params, with_auth auth options)])"
proof (cases "getAuthHeaders this")
  case (Inl e)
  then show ?thesis by (simp add: requestWithPagination_def)
next
  case (Inr auth)
  then show ?thesis
    by (cases "fetch rt (list_url rt this endpoint params) (with_auth auth options)")
      (simp_all add: requestWithPagination_def)
qed

lemma getFileRaw_calls:
  "snd (getFileRaw rt this projectId filePath ref) =
     (case getAuthHeaders this of
        Inl e \<Rightarrow> []
      | Inr auth \<Rightarrow>
          [(this_baseUrl this @ ''/projects/'' @ encodeURIComponent (String_id rt projectId)
              @ ''/repository/files/'' @ encodeURIComponent filePath @ ''/raw?ref=''
              @ encodeURIComponent ref,
            \<lparr> http_method = None, body = None, headers = Some auth \<rparr>)])"
  by (simp add: getFileRaw_def Let_def split: sum.splits)

lemma getJobLog_calls:
  "snd (getJobLog rt this projectId jobId) =
     (case getAuthHeaders this of
        Inl e \<Rightarrow> []
      | Inr auth \<Rightarrow>
          [(this_baseUrl this @ ''/projects/'' @ encodeURIComponent (String_id rt projectId)
              @ ''/jobs/'' @ Number_toString rt jobId @ ''/trace'',
            \<lparr> http_method = None, body = None, headers = Some auth \<rparr>)])"
  by (simp add: getJobLog_def Let_def split: sum.splits)

text \<open>The result of an executor whose call the transport answered with \<open>response\<close>.\<close>

lemma request_answered:
  assumes "snd (request rt this endpoint options) = [(url, init)]"
    and "fetch rt url init = Inr response"
  shows "fst (request rt this endpoint options) =
           (case status_error rt response of
              Some e \<Rightarrow> Inl e
            | None \<Rightarrow>
                if status response = 204 then Inr None
                else (case JSON_parse rt (text_r response) of
                        Inl e \<Rightarrow> Inl e
                      | Inr j \<Rightarrow> Inr (Some j)))"
proof (cases "getAuthHeaders this")
  case (Inl e)
  with assms(1) show ?thesis by (simp add: request_calls)
next
  case (Inr auth)
  with assms(1) have "url = this_baseUrl this @ endpoint" "init = with_auth auth options"
    by (simp_all add: request_calls)
  with assms(2) Inr show ?thesis
    by (simp add: request_def)
qed

lemma requestWithPagination_answered:
  assumes "snd (requestWithPagination rt this endpoint params options) = [(url, init)]"
    and "fetch rt url init = Inr response"
  shows "fst (requestWithPagination rt this endpoint params options) =
           (case status_error rt response of
              Some e \<Rightarrow> Inl e
            | None \<Rightarrow>
                (case JSON_parse rt (text_r response) of
                   Inl e \<Rightarrow> Inl e
                 | Inr its \<Rightarrow>
                     (case js_get (Some its) ''length'' of
                        Inl e \<Rightarrow> Inl e
                      | Inr len \<Rightarrow>
                          Inr \<lparr> items = its, count = len,
                                total = header_int (headers_r response ''X-Total''),
                                hasMore = (header_int (headers_r response ''X-Next-Page'') \<noteq> None),
                                page_r = None,
                                nextPage = header_int (headers_r response ''X-Next-Page''),
                                totalPages = header_int (headers_r response ''X-Total-Pages'') \<rparr>)))"
proof (cases "getAuthHeaders this")
  case (Inl e)
  with assms(1) show ?thesis by (simp add: requestWithPagination_calls)
next
  case (Inr auth)
  with assms(1) have "url = list_url rt this endpoint params" "init = with_auth auth options"
    by (simp_all add: requestWithPagination_calls)
  with assms(2) Inr show ?thesis
    by (simp add: requestWithPagination_def Let_def split: option.splits sum.splits)
qed

section \<open>Classification of failed responses\<close>

lemma status_error_401_403:
  "status response = 401 \<or> status response = 403 \<Longrightarrow>
   status_error rt response =
     Some (AuthenticationError ''Authentication failed. Check your GitLab credentials.'')"
  by (auto simp: status_error_def)

text \<open>
  C2. When the transport answers the call of either executor with status 401 or 403,
  the executor rejects with \<open>AuthenticationError\<close>; neither the body text nor what
  \<open>JSON.parse\<close> makes of it plays a part.
\<close>

theorem authentication_error_on_401_403:
  assumes "status response = 401 \<or> status response = 403"
  shows "(snd (request rt this endpoint options) = [(url, init)] \<and> fetch rt url init = Inr response
            \<longrightarrow> fst (request rt this endpoint options)
                = Inl (AuthenticationError ''Authentication failed. Check your GitLab credentials.''))
       \<and> (snd (requestWithPagination rt this endpoint params options) = [(url', init')]
            \<and> fetch rt url' init' = Inr response
            \<longrightarrow> fst (requestWithPagination rt this endpoint params options)
                = Inl (AuthenticationError ''Authentication failed. Check your GitLab credentials.''))"
proof (intro conjI impI)
  assume "snd (request rt this endpoint options) = [(url, init)] \<and> fetch rt url init = Inr response"
  then show "fst (request rt this endpoint options)
      = Inl (AuthenticationError ''Authentication failed. Check your GitLab credentials.'')"
    using assms by (simp add: request_answered status_error_401_403)
next
  assume "snd (requestWithPagination rt this endpoint params options) = [(url', init')]
      \<and> fetch rt url' init' = Inr response"
  then show "fst (requestWithPagination rt this endpoint params options)
      = Inl (AuthenticationError ''Authentication failed. Check your GitLab credentials.'')"
    using assms by (simp add: requestWithPagination_answered status_error_401_403)
qed

theorem authentication_error_on_401_403_witness:
  "status forbidden_response = 403
   \<and> snd (request (mock_runtime forbidden_response) private_client ''/user'' empty_init)
       = [private_call ''https://gitlab.com/api/v4/user'']
   \<and> fst (request (mock_runtime forbidden_response) private_client ''/user'' empty_init)
       = Inl (AuthenticationError ''Authentication failed. Check your GitLab credentials.'')
   \<and> snd (requestWithPagination (mock_runtime forbidden_response) private_client ''/user'' None empty_init)
       = [private_call ''https://gitlab.com/api/v4/user'']
   \<and> fst (requestWithPagination (mock_runtime forbidden_response) private_client ''/user'' None empty_init)
       = Inl (AuthenticationError ''Authentication failed. Check your GitLab credentials.'')"
  using authentication_error_on_401_403 [of forbidden_response "mock_runtime forbidden_response"
      private_client "''/user''" empty_init "''https://gitlab.com/api/v4/user''"
      "snd (private_call [])" None "''https://gitlab.com/api/v4/user''" "snd (private_call [])"]
  by (simp add: request_calls requestWithPagination_calls list_url_def client_eval
      mock_runtime_def private_call_def forbidden_response_def)

lemma status_error_429:
  "status response = 429 \<Longrightarrow>
   status_error rt response =
     Some (RateLimitError ''Rate limit exceeded''
             (case headers_r response ''Retry-After'' of
                None \<Rightarrow> Fin 60
              | Some v \<Rightarrow> if v \<noteq> [] then parseInt10 v else Fin 60))"
  by (simp add: status_error_def)

text \<open>
  A header value made of decimal digits is read as the number value of the integer it
  writes: the integer itself below \<open>2 ^ 53\<close>, the nearest number beyond.
\<close>

lemma skip_whitespace_digit: "is_digit c \<Longrightarrow> skip_whitespace (c # r) = c # r"
  by (simp add: skip_whitespace.simps whitespace_width_def is_digit_def)

lemma parseInt10_digits:
  assumes "v \<noteq> []" and "\<forall>c \<in> set v. is_digit c"
  shows "parseInt10 v = to_double (digits_value v)"
proof -
  from assms obtain c r where v: "v = c # r" by (cases v) auto
  with assms have digit: "is_digit c" by simp
  then have sign: "c \<noteq> CHR ''-''" "c \<noteq> CHR ''+''" by (auto simp: is_digit_def)
  from assms v have rest: "takeWhile is_digit r = r" by simp
  from digit sign show ?thesis
    by (simp add: parseInt10_def skip_whitespace_digit v rest)
qed

lemma to_double_exact: "n < 2 ^ 53 \<Longrightarrow> to_double n = Fin (of_nat n)"
  by (simp add: to_double_def)

lemma parseInt10_rounds: "parseInt10 ''9007199254740993'' = Fin 9007199254740992"
  by (simp add: parseInt_eval bit_length.simps)

text \<open>The raw-text reads do not classify: any response that is not \<open>ok\<close> is a \<open>GitLabApiError\<close>.\<close>

lemma getFileRaw_answered:
  assumes "snd (getFileRaw rt this projectId filePath ref) = [(url, init)]"
    and "fetch rt url init = Inr response"
  shows "fst (getFileRaw rt this projectId filePath ref) =
           (if \<not> ok response then
              Inl (GitLabApiError (JStr (''Failed to get file: '' @ show_nat (status response)))
                     (status response))
            else Inr (text_r response))"
proof (cases "getAuthHeaders this")
  case (Inl e)
  with assms(1) show ?thesis by (simp add: getFileRaw_calls)
next
  case (Inr auth)
  with assms(1) have "url = this_baseUrl this @ ''/projects/''
        @ encodeURIComponent (String_id rt projectId) @ ''/repository/files/''
        @ encodeURIComponent filePath @ ''/raw?ref='' @ encodeURIComponent ref"
    and "init = \<lparr> http_method = None, body = None, headers = Some auth \<rparr>"
    by (simp_all add: getFileRaw_calls)
  with assms(2) Inr show ?thesis
    by (simp add: getFileRaw_def)
qed

lemma getJobLog_answered:
  assumes "snd (getJobLog rt this projectId jobId) = [(url, init)]"
    and "fetch rt url init = Inr response"
  shows "fst (getJobLog rt this projectId jobId) =
           (if \<not> ok response then
              Inl (GitLabApiError (JStr (''Failed to get job log: '' @ show_nat (status response)))
                     (status response))
            else Inr (text_r response))"
proof (cases "getAuthHeaders this")
  case (Inl e)
  with assms(1) show ?thesis by (simp add: getJobLog_calls)
next
  case (Inr auth)
  with assms(1) have "url = this_baseUrl this @ ''/projects/''
        @ encodeURIComponent (String_id rt projectId) @ ''/jobs/'' @ Number_toString rt jobId
        @ ''/trace''"
    and "init = \<lparr> http_method = None, body = None, headers = Some auth \<rparr>"
    by (simp_all add: getJobLog_calls)
  with assms(2) Inr show ?thesis
    by (simp add: getJobLog_def)
qed

text \<open>
  C3. When the transport answers the call of either executor with status 429, the
  executor rejects with \<open>RateLimitError\<close>; with \<open>Retry-After: 30\<close> the error carries 30 and
  with no such header 60, as claimed. With a \<open>Retry-After\<close> that \<open>parseInt\<close> cannot read,
  such as the HTTP date \<open>Wed, 21 Oct 2015 07:28:00 GMT\<close>, the claim asks for 60 again, and
  the error carries \<open>NaN\<close>: the code tests whether the header is there, not whether it
  was parsed.
\<close>

theorem unparsable_Retry_After_gives_NaN:
  "status rate_limited_date = 429
   \<and> headers_r rate_limited_date ''Retry-After'' = Some ''Wed, 21 Oct 2015 07:28:00 GMT''
   \<and> parseInt10 ''Wed, 21 Oct 2015 07:28:00 GMT'' = NaN
   \<and> fst (request (mock_runtime rate_limited_date) private_client ''/user'' empty_init)
       = Inl (RateLimitError ''Rate limit exceeded'' NaN)
   \<and> fst (requestWithPagination (mock_runtime rate_limited_date) private_client ''/projects'' None
            empty_init)
       = Inl (RateLimitError ''Rate limit exceeded'' NaN)
   \<and> fst (request (mock_runtime rate_limited_30) private_client ''/user'' empty_init)
       = Inl (RateLimitError ''Rate limit exceeded'' (Fin 30))
   \<and> fst (requestWithPagination (mock_runtime rate_limited_30) private_client ''/projects'' None
            empty_init)
       = Inl (RateLimitError ''Rate limit exceeded'' (Fin 30))
   \<and> fst (request (mock_runtime rate_limited_plain) private_client ''/user'' empty_init)
       = Inl (RateLimitError ''Rate limit exceeded'' (Fin 60))
   \<and> fst (requestWithPagination (mock_runtime rate_limited_plain) private_client ''/projects'' None
            empty_init)
       = Inl (RateLimitError ''Rate limit exceeded'' (Fin 60))"
proof -
  have calls: "snd (request (mock_runtime r) private_client ''/user'' empty_init)
                 = [private_call ''https://gitlab.com/api/v4/user'']"
    "snd (requestWithPagination (mock_runtime r) private_client ''/projects'' None empty_init)
                 = [private_call ''https://gitlab.com/api/v4/projects'']"
    "fetch (mock_runtime r) u i = Inr r" for r u i
    by (simp_all add: request_calls requestWithPagination_calls list_url_def client_eval
        mock_runtime_def private_call_def)
  have given: "status rate_limited_date = 429" "status rate_limited_30 = 429"
    "status rate_limited_plain = 429"
    "headers_r rate_limited_date ''Retry-After'' = Some ''Wed, 21 Oct 2015 07:28:00 GMT''"
    "headers_r rate_limited_30 ''Retry-After'' = Some ''30''"
    "headers_r rate_limited_plain ''Retry-After'' = None"
    by (simp_all add: rate_limited_date_def rate_limited_30_def rate_limited_plain_def
        header_list_def)
  have parsed: "parseInt10 ''Wed, 21 Oct 2015 07:28:00 GMT'' = NaN" "parseInt10 ''30'' = Fin 30"
    by (simp_all add: parseInt_eval)
  have single: "fst (request (mock_runtime r) private_client ''/user'' empty_init)
      = Inl (RateLimitError ''Rate limit exceeded''
               (case headers_r r ''Retry-After'' of
                  None \<Rightarrow> Fin 60
                | Some v \<Rightarrow> if v \<noteq> [] then parseInt10 v else Fin 60))"
    if "status r = 429" for r
    using that request_answered [OF calls(1) [unfolded private_call_def] calls(3)]
    by (simp add: status_error_429)
  have listing: "fst (requestWithPagination (mock_runtime r) private_client ''/projects'' None
          empty_init)
      = Inl (RateLimitError ''Rate limit exceeded''
               (case headers_r r ''Retry-After'' of
                  None \<Rightarrow> Fin 60
                | Some v \<Rightarrow> if v \<noteq> [] then parseInt10 v else Fin 60))"
    if "status r = 429" for r
    using that requestWithPagination_answered [OF calls(2) [unfolded private_call_def] calls(3)]
    by (simp add: status_error_429)
  show ?thesis
    using single [OF given(1)] single [OF given(2)] single [OF given(3)]
      listing [OF given(1)] listing [OF given(2)] listing [OF given(3)]
    by (simp add: given parsed)
qed

text \<open>
  The message of a \<open>GitLabApiError\<close>, case by case: only an object can contribute a
  field; \<open>null\<close>, a body that is no JSON and every other value leave the default.
\<close>

lemma api_error_message_cases:
  "api_error_message rt response =
     (case JSON_parse rt (text_r response) of
        Inl err \<Rightarrow> JStr (''API error: '' @ show_nat (status response))
      | Inr (JObj kvs) \<Rightarrow>
          or_json (map_of kvs ''message'')
            (or_json (map_of kvs ''error'') (JStr (''API error: '' @ show_nat (status response))))
      | Inr _ \<Rightarrow> JStr (''API error: '' @ show_nat (status response)))"
proof (cases "JSON_parse rt (text_r response)")
  case (Inl err)
  then show ?thesis by (simp add: api_error_message_def)
next
  case (Inr errorJson)
  then show ?thesis
    by (cases errorJson) (simp_all add: api_error_message_def or_json_def Let_def split: option.splits)
qed

lemma status_error_other:
  assumes "\<not> ok response" and "status response \<noteq> 429"
    and "status response \<noteq> 401" and "status response \<noteq> 403"
  shows "status_error rt response
           = Some (GitLabApiError (api_error_message rt response) (status response))"
  using assms by (simp add: status_error_def)

text \<open>
  C4 as stated fails twice. Not every call takes the message from the JSON body: for a
  404 whose body carries a \<open>message\<close>, the raw read of a file raises a \<open>GitLabApiError\<close>
  with the text \<open>Failed to get file: 404\<close>. And in the executors a \<open>message\<close> field that
  is there but empty is passed over for the \<open>error\<close> field.
\<close>

theorem api_error_message_not_as_claimed:
  "fst (getFileRaw (mock_runtime not_found_response) private_client (IdNumber (Fin 7)) ''README.md'' ''main'')
     = Inl (GitLabApiError (JStr ''Failed to get file: 404'') 404)
   \<and> JSON_parse (mock_runtime not_found_response) (text_r not_found_response)
     = Inr (JObj [(''message'', JStr ''404 Project Not Found'')])
   \<and> JSON_parse (mock_runtime empty_message_response) (text_r empty_message_response)
     = Inr (JObj [(''message'', JStr []), (''error'', JStr ''Not Found'')])
   \<and> fst (request (mock_runtime empty_message_response) private_client ''/projects/7'' empty_init)
     = Inl (GitLabApiError (JStr ''Not Found'') 404)"
  by (simp add: getFileRaw_def request_def status_error_def api_error_message_def or_json_def
      ok_def client_eval mock_eval not_found_response_def empty_message_response_def
      show_nat.simps)

text \<open>
  C4, amended. A response that is not \<open>ok\<close> and whose status is none of 429, 401, 403
  makes either executor reject with \<open>GitLabApiError\<close>, carrying the status of the response
  and a message that is: the \<open>message\<close> field of the JSON body when the body is an object
  with a truthy one; else its \<open>error\<close> field when that is truthy; and the text
  \<open>API error: <status>\<close> when the body is no JSON, is no object, or has neither field
  (a field that is there but falsy counts as missing, as \<open>||\<close> has it). The raw-text reads
  \<open>getFileRaw\<close> and \<open>getJobLog\<close> reject with \<open>GitLabApiError\<close> too, with the status and a
  message of their own, \<open>Failed to get file: <status>\<close> and \<open>Failed to get job log:
  <status>\<close>.
\<close>

theorem api_error_on_other_failures:
  assumes "\<not> ok response" and "status response \<noteq> 429"
    and "status response \<noteq> 401" and "status response \<noteq> 403"
  shows "(snd (request rt this endpoint options) = [(url, init)] \<and> fetch rt url init = Inr response
            \<longrightarrow> fst (request rt this endpoint options)
                = Inl (GitLabApiError (api_error_message rt response) (status response)))
       \<and> (snd (requestWithPagination rt this endpoint params options) = [(url', init')]
            \<and> fetch rt url' init' = Inr response
            \<longrightarrow> fst (requestWithPagination rt this endpoint params options)
                = Inl (GitLabApiError (api_error_message rt response) (status response)))
       \<and> (JSON_parse rt (text_r response) = Inr (JObj kvs) \<and> map_of kvs ''message'' = Some m
            \<and> truthy_json m
            \<longrightarrow> api_error_message rt response = m)
       \<and> (JSON_parse rt (text_r response) = Inr (JObj kvs)
            \<and> missing_or_falsy (map_of kvs ''message'') \<and> map_of kvs ''error'' = Some e
            \<and> truthy_json e
            \<longrightarrow> api_error_message rt response = e)
       \<and> (JSON_parse rt (text_r response) = Inr (JObj kvs)
            \<and> missing_or_falsy (map_of kvs ''message'') \<and> missing_or_falsy (map_of kvs ''error'')
            \<longrightarrow> api_error_message rt response = JStr (''API error: '' @ show_nat (status response)))
       \<and> (JSON_parse rt (text_r response) = Inl err
            \<longrightarrow> api_error_message rt response = JStr (''API error: '' @ show_nat (status response)))
       \<and> (JSON_parse rt (text_r response) = Inr j \<and> (\<forall>kvs'. j \<noteq> JObj kvs')
            \<longrightarrow> api_error_message rt response = JStr (''API error: '' @ show_nat (status response)))
       \<and> (snd (getFileRaw rt this projectId filePath ref) = [(url, init)]
            \<and> fetch rt url init = Inr response
            \<longrightarrow> fst (getFileRaw rt this projectId filePath ref)
                = Inl (GitLabApiError (JStr (''Failed to get file: '' @ show_nat (status response)))
                         (status response)))
       \<and> (snd (getJobLog rt this projectId jobId) = [(url, init)]
            \<and> fetch rt url init = Inr response
            \<longrightarrow> fst (getJobLog rt this projectId jobId)
                = Inl (GitLabApiError (JStr (''Failed to get job log: '' @ show_nat (status response)))
                         (status response)))"
proof (intro conjI impI)
  assume "snd (request rt this endpoint options) = [(url, init)] \<and> fetch rt url init = Inr response"
  then show "fst (request rt this endpoint options)
      = Inl (GitLabApiError (api_error_message rt response) (status response))"
    using assms by (simp add: request_answered status_error_other)
next
  assume "snd (requestWithPagination rt this endpoint params options) = [(url', init')]
      \<and> fetch rt url' init' = Inr response"
  then show "fst (requestWithPagination rt this endpoint params options)
      = Inl (GitLabApiError (api_error_message rt response) (status response))"
    using assms by (simp add: requestWithPagination_answered status_error_other)
next
  assume "JSON_parse rt (text_r response) = Inr (JObj kvs) \<and> map_of kvs ''message'' = Some m
      \<and> truthy_json m"
  then show "api_error_message rt response = m"
    by (simp add: api_error_message_cases or_json_def)
next
  assume "JSON_parse rt (text_r response) = Inr (JObj kvs)
      \<and> missing_or_falsy (map_of kvs ''message'') \<and> map_of kvs ''error'' = Some e \<and> truthy_json e"
  then show "api_error_message rt response = e"
    by (simp add: api_error_message_cases or_json_def missing_or_falsy_def split: option.splits)
next
  assume "JSON_parse rt (text_r response) = Inr (JObj kvs)
      \<and> missing_or_falsy (map_of kvs ''message'') \<and> missing_or_falsy (map_of kvs ''error'')"
  then show "api_error_message rt response = JStr (''API error: '' @ show_nat (status response))"
    by (simp add: api_error_message_cases or_json_def missing_or_falsy_def split: option.splits)
next
  assume "JSON_parse rt (text_r response) = Inl err"
  then show "api_error_message rt response = JStr (''API error: '' @ show_nat (status response))"
    by (simp add: api_error_message_cases)
next
  assume "JSON_parse rt (text_r response) = Inr j \<and> (\<forall>kvs'. j \<noteq> JObj kvs')"
  then show "api_error_message rt response = JStr (''API error: '' @ show_nat (status response))"
    by (cases j) (simp_all add: api_error_message_cases)
next
  assume "snd (getFileRaw rt this projectId filePath ref) = [(url, init)]
      \<and> fetch rt url init = Inr response"
  then show "fst (getFileRaw rt this projectId filePath ref)
      = Inl (GitLabApiError (JStr (''Failed to get file: '' @ show_nat (status response)))
               (status response))"
    using assms(1) by (simp add: getFileRaw_answered)
next
  assume "snd (getJobLog rt this projectId jobId) = [(url, init)] \<and> fetch rt url init = Inr response"
  then show "fst (getJobLog rt this projectId jobId)
      = Inl (GitLabApiError (JStr (''Failed to get job log: '' @ show_nat (status response)))
               (status response))"
    using assms(1) by (simp add: getJobLog_answered)
qed

theorem api_error_on_other_failures_witness:
  "\<not> ok not_found_response
   \<and> fst (request (mock_runtime not_found_response) private_client ''/projects/7'' empty_init)
       = Inl (GitLabApiError (JStr ''404 Project Not Found'') 404)
   \<and> fst (requestWithPagination (mock_runtime not_found_response) private_client ''/projects/7'' None empty_init)
       = Inl (GitLabApiError (JStr ''404 Project Not Found'') 404)
   \<and> \<not> ok invalid_token_response
   \<and> fst (request (mock_runtime invalid_token_response) private_client ''/projects/7'' empty_init)
       = Inl (GitLabApiError (JStr ''invalid_token'') 400)
   \<and> \<not> ok bad_gateway_response
   \<and> fst (request (mock_runtime bad_gateway_response) private_client ''/projects/7'' empty_init)
       = Inl (GitLabApiError (JStr ''API error: 502'') 502)
   \<and> snd (getFileRaw (mock_runtime bad_gateway_response) private_client (IdNumber (Fin 7))
            ''README.md'' ''main'')
       = [private_call ''https://gitlab.com/api/v4/projects/7/repository/files/README.md/raw?ref=main'']
   \<and> fst (getFileRaw (mock_runtime bad_gateway_response) private_client (IdNumber (Fin 7))
            ''README.md'' ''main'')
       = Inl (GitLabApiError (JStr ''Failed to get file: 502'') 502)"
proof -
  have calls: "snd (request (mock_runtime r) private_client ''/projects/7'' empty_init)
                 = [private_call ''https://gitlab.com/api/v4/projects/7'']"
    "snd (requestWithPagination (mock_runtime r) private_client ''/projects/7'' None empty_init)
                 = [private_call ''https://gitlab.com/api/v4/projects/7'']"
    "fetch (mock_runtime r) u i = Inr r" for r u i
    by (simp_all add: request_calls requestWithPagination_calls list_url_def client_eval
        mock_runtime_def private_call_def)
  have parsed:
    "JSON_parse (mock_runtime not_found_response) (text_r not_found_response)
       = Inr (JObj [(''message'', JStr ''404 Project Not Found'')])"
    "JSON_parse (mock_runtime invalid_token_response) (text_r invalid_token_response)
       = Inr (JObj [(''error'', JStr ''invalid_token'')])"
    "JSON_parse (mock_runtime bad_gateway_response) (text_r bad_gateway_response)
       = Inl (SyntaxError ''Unexpected token < in JSON at position 0'')"
    by (simp_all add: mock_eval not_found_response_def invalid_token_response_def
        bad_gateway_response_def)
  have bad: "\<not> ok not_found_response" "\<not> ok invalid_token_response" "\<not> ok bad_gateway_response"
    "status not_found_response = 404" "status invalid_token_response = 400"
    "status bad_gateway_response = 502"
    by (simp_all add: ok_def not_found_response_def invalid_token_response_def
        bad_gateway_response_def)
  note a = api_error_on_other_failures
    [of not_found_response "mock_runtime not_found_response" private_client "''/projects/7''"
      empty_init "''https://gitlab.com/api/v4/projects/7''"
      "snd (private_call ''https://gitlab.com/api/v4/projects/7'')" None
      "''https://gitlab.com/api/v4/projects/7''"
      "snd (private_call ''https://gitlab.com/api/v4/projects/7'')"
      "[(''message'', JStr ''404 Project Not Found'')]" "JStr ''404 Project Not Found''"]
  note b = api_error_on_other_failures
    [of invalid_token_response "mock_runtime invalid_token_response" private_client "''/projects/7''"
      empty_init "''https://gitlab.com/api/v4/projects/7''"
      "snd (private_call ''https://gitlab.com/api/v4/projects/7'')" None
      "''https://gitlab.com/api/v4/projects/7''"
      "snd (private_call ''https://gitlab.com/api/v4/projects/7'')"
      "[(''error'', JStr ''invalid_token'')]" _ "JStr ''invalid_token''"]
  note c = api_error_on_other_failures
    [of bad_gateway_response "mock_runtime bad_gateway_response" private_client "''/projects/7''"
      empty_init "''https://gitlab.com/api/v4/projects/7''"
      "snd (private_call ''https://gitlab.com/api/v4/projects/7'')" None
      "''https://gitlab.com/api/v4/projects/7''"
      "snd (private_call ''https://gitlab.com/api/v4/projects/7'')" _ _ _
      "SyntaxError ''Unexpected token < in JSON at position 0''"]
  have raw: "snd (getFileRaw (mock_runtime bad_gateway_response) private_client (IdNumber (Fin 7))
        ''README.md'' ''main'')
      = [private_call ''https://gitlab.com/api/v4/projects/7/repository/files/README.md/raw?ref=main'']"
    by (simp add: getFileRaw_calls client_eval mock_eval private_call_def show_nat.simps)
      code_simp
  note d = api_error_on_other_failures
    [where response = bad_gateway_response and rt = "mock_runtime bad_gateway_response"
      and this = private_client and projectId = "IdNumber (Fin 7)" and filePath = "''README.md''"
      and ref = "''main''"
      and url = "''https://gitlab.com/api/v4/projects/7/repository/files/README.md/raw?ref=main''"
      and init = "snd (private_call [])"]
  from d have raw_file: "fst (getFileRaw (mock_runtime bad_gateway_response) private_client
        (IdNumber (Fin 7)) ''README.md'' ''main'')
      = Inl (GitLabApiError (JStr ''Failed to get file: 502'') 502)"
    using raw calls(3) bad by (simp add: private_call_def show_nat.simps)
  show ?thesis
    using a b c raw raw_file
    by (simp add: calls parsed bad private_call_def missing_or_falsy_def show_nat.simps)
qed

section \<open>The envelope of a list call\<close>

text \<open>What a list call that resolved went through, and the envelope it built.\<close>

lemma requestWithPagination_success:
  assumes "fst (requestWithPagination rt this endpoint params options) = Inr r"
  shows "\<exists>auth response.
           getAuthHeaders this = Inr auth
           \<and> fetch rt (list_url rt this endpoint params) (with_auth auth options) = Inr response
           \<and> status_error rt response = None
           \<and> JSON_parse rt (text_r response) = Inr (items r)
           \<and> js_get (Some (items r)) ''length'' = Inr (count r)
           \<and> total r = header_int (headers_r response ''X-Total'')
           \<and> totalPages r = header_int (headers_r response ''X-Total-Pages'')
           \<and> nextPage r = header_int (headers_r response ''X-Next-Page'')
           \<and> hasMore r = (nextPage r \<noteq> None)
           \<and> page_r r = None"
proof (cases "getAuthHeaders this")
  case (Inl e)
  with assms show ?thesis by (simp add: requestWithPagination_def)
next
  case auth: (Inr auth)
  show ?thesis
  proof (cases "fetch rt (list_url rt this endpoint params) (with_auth auth options)")
    case (Inl e)
    with assms auth show ?thesis by (simp add: requestWithPagination_def)
  next
    case response: (Inr response)
    have calls: "snd (requestWithPagination rt this endpoint params options)
        = [(list_url rt this endpoint params, with_auth auth options)]"
      by (simp add: requestWithPagination_calls auth)
    note result = requestWithPagination_answered [OF calls response]
    show ?thesis
    proof (cases "status_error rt response")
      case (Some e)
      with assms result show ?thesis by simp
    next
      case no_error: None
      show ?thesis
      proof (cases "JSON_parse rt (text_r response)")
        case (Inl e)
        with assms result no_error show ?thesis by simp
      next
        case parsed: (Inr its)
        show ?thesis
        proof (cases "js_get (Some its) ''length''")
          case (Inl e)
          with assms result no_error parsed show ?thesis by simp
        next
          case len: (Inr len)
          with assms result no_error parsed
          have r: "r = \<lparr> items = its, count = len,
                total = header_int (headers_r response ''X-Total''),
                hasMore = (header_int (headers_r response ''X-Next-Page'') \<noteq> None),
                page_r = None,
                nextPage = header_int (headers_r response ''X-Next-Page''),
                totalPages = header_int (headers_r response ''X-Total-Pages'') \<rparr>"
            by simp
          have "getAuthHeaders this = Inr auth
              \<and> fetch rt (list_url rt this endpoint params) (with_auth auth options) = Inr response
              \<and> status_error rt response = None
              \<and> JSON_parse rt (text_r response) = Inr (items r)
              \<and> js_get (Some (items r)) ''length'' = Inr (count r)
              \<and> total r = header_int (headers_r response ''X-Total'')
              \<and> totalPages r = header_int (headers_r response ''X-Total-Pages'')
              \<and> nextPage r = header_int (headers_r response ''X-Next-Page'')
              \<and> hasMore r = (nextPage r \<noteq> None)
              \<and> page_r r = None"
            by (simp add: r auth response no_error parsed len)
          then show ?thesis by blast
        qed
      qed
    qed
  qed
qed

text \<open>
  C5. The envelope of a list call that resolved has \<open>count\<close> equal to \<open>items.length\<close>,
  the number of items when the body is an array (the page size asked for plays no part),
  and \<open>hasMore\<close> true exactly when \<open>nextPage\<close> is defined. The constructor
  \<open>createPaginatedResponse\<close> counts its items too, and takes \<open>hasMore\<close> from its caller
  when given, else from \<open>nextPage\<close> in the same way.
\<close>

theorem envelope_count_and_hasMore:
  "(fst (requestWithPagination rt this endpoint params options) = Inr r
      \<longrightarrow> js_get (Some (items r)) ''length'' = Inr (count r)
          \<and> hasMore r = (nextPage r \<noteq> None))
   \<and> (fst (requestWithPagination rt this endpoint params options) = Inr r \<and> items r = JArr xs
      \<longrightarrow> count r = Some (JNum (of_nat (length xs))))
   \<and> items (createPaginatedResponse its opts) = JArr its
   \<and> count (createPaginatedResponse its opts) = Some (JNum (of_nat (length its)))
   \<and> hasMore (createPaginatedResponse its opts)
       = (case hasMore_o opts of
            Some b \<Rightarrow> b
          | None \<Rightarrow> nextPage (createPaginatedResponse its opts) \<noteq> None)"
proof (intro conjI impI)
  assume "fst (requestWithPagination rt this endpoint params options) = Inr r"
  from requestWithPagination_success [OF this]
  show "js_get (Some (items r)) ''length'' = Inr (count r)"
    and "hasMore r = (nextPage r \<noteq> None)"
    by blast+
next
  assume "fst (requestWithPagination rt this endpoint params options) = Inr r \<and> items r = JArr xs"
  then have resolved: "fst (requestWithPagination rt this endpoint params options) = Inr r"
    and xs: "items r = JArr xs" by simp_all
  from requestWithPagination_success [OF resolved]
  have "js_get (Some (items r)) ''length'' = Inr (count r)" by blast
  with xs show "count r = Some (JNum (of_nat (length xs)))" by simp
qed (simp_all add: createPaginatedResponse_def split: option.splits)

theorem envelope_count_and_hasMore_witness:
  "fst (requestWithPagination (mock_runtime variables_page) private_client ''/projects/7/variables''
         (Some \<lparr> perPage = Some (Fin 20), page = None \<rparr>) empty_init)
     = Inr \<lparr> items = JArr [JObj [(''key'', JStr ''CI_TOKEN'')]], count = Some (JNum 1),
             total = Some (Fin 42), hasMore = True, page_r = None, nextPage = Some (Fin 2),
             totalPages = Some (Fin 3) \<rparr>
   \<and> js_get (Some (JArr [JObj [(''key'', JStr ''CI_TOKEN'')]])) ''length'' = Inr (Some (JNum 1))"
  using envelope_count_and_hasMore [of "mock_runtime variables_page" private_client
      "''/projects/7/variables''" "Some \<lparr> perPage = Some (Fin 20), page = None \<rparr>" empty_init
      "\<lparr> items = JArr [JObj [(''key'', JStr ''CI_TOKEN'')]], count = Some (JNum 1),
             total = Some (Fin 42), hasMore = True, page_r = None, nextPage = Some (Fin 2),
             totalPages = Some (Fin 3) \<rparr>" "[JObj [(''key'', JStr ''CI_TOKEN'')]]"]
  by (simp add: requestWithPagination_def list_url_def status_error_def ok_def client_eval mock_eval
      variables_page_def header_int_def parseInt_eval)

text \<open>
  C6. After a list call the executor reads \<open>X-Total\<close>, \<open>X-Total-Pages\<close> and \<open>X-Next-Page\<close>
  and parses each one that is there, so that headers 42, 3 and 2 give total 42, 3 pages,
  next page 2 and \<open>hasMore\<close> true, as claimed. The fourth header of the claim, \<open>X-Page\<close>, it
  does not read: a response that carries \<open>X-Page: 1\<close> gives an envelope without a page,
  although \<open>parseGitLabPaginationHeaders\<close> reads the page from the same headers.
\<close>

theorem X_Page_is_not_read:
  "headers_r first_page ''X-Total'' = Some ''42''
   \<and> headers_r first_page ''X-Total-Pages'' = Some ''3''
   \<and> headers_r first_page ''X-Page'' = Some ''1''
   \<and> headers_r first_page ''X-Next-Page'' = Some ''2''
   \<and> page_h (parseGitLabPaginationHeaders (headers_r first_page)) = Some (Fin 1)
   \<and> fst (requestWithPagination (mock_runtime first_page) private_client ''/projects/7/variables''
            None empty_init)
     = Inr \<lparr> items = JArr [JObj [(''key'', JStr ''CI_TOKEN'')]], count = Some (JNum 1),
             total = Some (Fin 42), hasMore = True, page_r = None, nextPage = Some (Fin 2),
             totalPages = Some (Fin 3) \<rparr>"
proof -
  have calls: "snd (requestWithPagination (mock_runtime first_page) private_client
        ''/projects/7/variables'' None empty_init)
      = [private_call ''https://gitlab.com/api/v4/projects/7/variables'']"
    "fetch (mock_runtime first_page) u i = Inr first_page" for u i
    by (simp_all add: requestWithPagination_calls list_url_def client_eval mock_runtime_def
        private_call_def)
  have given: "headers_r first_page ''X-Total'' = Some ''42''"
    "headers_r first_page ''X-Total-Pages'' = Some ''3''"
    "headers_r first_page ''X-Page'' = Some ''1''"
    "headers_r first_page ''X-Next-Page'' = Some ''2''"
    "JSON_parse (mock_runtime first_page) (text_r first_page)
       = Inr (JArr [JObj [(''key'', JStr ''CI_TOKEN'')]])"
    "status_error (mock_runtime first_page) first_page = None"
    by (simp_all add: status_error_def ok_def mock_eval first_page_def)
  have numbers: "header_int (Some ''42'') = Some (Fin 42)" "header_int (Some ''3'') = Some (Fin 3)"
    "header_int (Some ''2'') = Some (Fin 2)" "header_int (Some ''1'') = Some (Fin 1)"
    by (simp_all add: header_int_def parseInt_eval)
  have sibling: "page_h (parseGitLabPaginationHeaders (headers_r first_page)) = Some (Fin 1)"
    by (simp add: parseGitLabPaginationHeaders_def given numbers)
  from requestWithPagination_answered [OF calls(1) [unfolded private_call_def] calls(2)]
  have "fst (requestWithPagination (mock_runtime first_page) private_client
        ''/projects/7/variables'' None empty_init)
      = Inr \<lparr> items = JArr [JObj [(''key'', JStr ''CI_TOKEN'')]], count = Some (JNum 1),
              total = Some (Fin 42), hasMore = True, page_r = None, nextPage = Some (Fin 2),
              totalPages = Some (Fin 3) \<rparr>"
    by (simp add: given numbers)
  with given sibling show ?thesis by simp
qed

section \<open>Credentials\<close>

lemma spread_empty: "spread a [] = a"
  by (induction a) (auto simp: spread_def)

lemma with_auth_plain: "headers options = None \<Longrightarrow> with_auth auth options = options \<lparr> headers := Some auth \<rparr>"
  by (simp add: with_auth_def spread_empty)

lemma no_token_no_headers:
  assumes "\<not> truthy_string (privateToken (this_credentials this))"
    and "\<not> truthy_string (accessToken (this_credentials this))"
  shows "getAuthHeaders this
           = Inl (AuthenticationError ''No credentials provided. Include X-GitLab-Token or X-GitLab-Access-Token header.'')"
  using assms
  by (cases "privateToken (this_credentials this)"; cases "accessToken (this_credentials this)")
    (simp_all add: getAuthHeaders_def)





section \<open>Authentication headers\<close>

lemma getAuthHeaders_bearer:
  "accessToken (this_credentials this) = Some t \<Longrightarrow> t \<noteq> [] \<Longrightarrow>
   getAuthHeaders this = Inr [(''Authorization'', ''Bearer '' @ t), (''Content-Type'', ''application/json'')]"
  by (simp add: getAuthHeaders_def)

lemma getAuthHeaders_private:
  "\<not> truthy_string (accessToken (this_credentials this)) \<Longrightarrow>
   privateToken (this_credentials this) = Some p \<Longrightarrow> p \<noteq> [] \<Longrightarrow>
   getAuthHeaders this = Inr [(''PRIVATE-TOKEN'', p), (''Content-Type'', ''application/json'')]"
  by (cases "accessToken (this_credentials this)") (simp_all add: getAuthHeaders_def)

lemma getAuthHeaders_one_name:
  "getAuthHeaders this = Inr auth \<Longrightarrow> length (auth_header_names auth) = 1"
  by (auto simp: getAuthHeaders_def auth_header_names_def Let_def split: option.splits if_splits)

text \<open>
  Every call that an executor or a raw read makes carries the headers that
  \<open>getAuthHeaders\<close> built; the executors add nothing when their caller passed no
  headers of its own, and no method of the client passes any.
\<close>

lemma calls_carry_auth_headers:
  assumes "headers options = None"
    and "call \<in> set (snd (request rt this endpoint options)
                      @ snd (requestWithPagination rt this endpoint params options)
                      @ snd (getFileRaw rt this projectId filePath ref)
                      @ snd (getJobLog rt this projectId jobId))"
  shows "getAuthHeaders this = Inr auth \<longrightarrow> headers (snd call) = Some auth"
    and "\<exists>auth. getAuthHeaders this = Inr auth"
  using assms
  by (cases "getAuthHeaders this";
      auto simp: request_calls requestWithPagination_calls getFileRaw_calls getJobLog_calls
        with_auth_plain)+

text \<open>
  C7. With a non-empty bearer token the headers are \<open>Authorization: Bearer <token>\<close> and
  the content type, whether or not a private token is there too; with a non-empty
  private token and no bearer token they are \<open>PRIVATE-TOKEN: <token>\<close> and the content
  type; with neither, the executors and the raw reads reject with \<open>AuthenticationError\<close>
  and send nothing. Every call that goes out carries the headers so built, of which
  exactly one is an authentication header.
\<close>

theorem one_authentication_header:
  "(accessToken (this_credentials this) = Some t \<and> t \<noteq> []
      \<longrightarrow> getAuthHeaders this
          = Inr [(''Authorization'', ''Bearer '' @ t), (''Content-Type'', ''application/json'')])
   \<and> (\<not> truthy_string (accessToken (this_credentials this))
       \<and> privateToken (this_credentials this) = Some p \<and> p \<noteq> []
      \<longrightarrow> getAuthHeaders this
          = Inr [(''PRIVATE-TOKEN'', p), (''Content-Type'', ''application/json'')])
   \<and> (\<not> truthy_string (accessToken (this_credentials this))
       \<and> \<not> truthy_string (privateToken (this_credentials this))
      \<longrightarrow> request rt this endpoint options
            = (Inl (AuthenticationError ''No credentials provided. Include X-GitLab-Token or X-GitLab-Access-Token header.''), [])
          \<and> requestWithPagination rt this endpoint params options
            = (Inl (AuthenticationError ''No credentials provided. Include X-GitLab-Token or X-GitLab-Access-Token header.''), [])
          \<and> getFileRaw rt this projectId filePath ref
            = (Inl (AuthenticationError ''No credentials provided. Include X-GitLab-Token or X-GitLab-Access-Token header.''), [])
          \<and> getJobLog rt this projectId jobId
            = (Inl (AuthenticationError ''No credentials provided. Include X-GitLab-Token or X-GitLab-Access-Token header.''), []))
   \<and> (headers options = None
       \<and> call \<in> set (snd (request rt this endpoint options)
                      @ snd (requestWithPagination rt this endpoint params options)
                      @ snd (getFileRaw rt this projectId filePath ref)
                      @ snd (getJobLog rt this projectId jobId))
      \<longrightarrow> (\<exists>auth. getAuthHeaders this = Inr auth \<and> headers (snd call) = Some auth
                  \<and> length (auth_header_names auth) = 1))"
proof (intro conjI impI)
  assume "accessToken (this_credentials this) = Some t \<and> t \<noteq> []"
  then show "getAuthHeaders this
      = Inr [(''Authorization'', ''Bearer '' @ t), (''Content-Type'', ''application/json'')]"
    by (simp add: getAuthHeaders_bearer)
next
  assume "\<not> truthy_string (accessToken (this_credentials this))
      \<and> privateToken (this_credentials this) = Some p \<and> p \<noteq> []"
  then show "getAuthHeaders this
      = Inr [(''PRIVATE-TOKEN'', p), (''Content-Type'', ''application/json'')]"
    by (simp add: getAuthHeaders_private)
next
  assume none: "\<not> truthy_string (accessToken (this_credentials this))
      \<and> \<not> truthy_string (privateToken (this_credentials this))"
  then have refuse: "getAuthHeaders this
      = Inl (AuthenticationError ''No credentials provided. Include X-GitLab-Token or X-GitLab-Access-Token header.'')"
    by (simp add: no_token_no_headers)
  show "request rt this endpoint options
      = (Inl (AuthenticationError ''No credentials provided. Include X-GitLab-Token or X-GitLab-Access-Token header.''), [])"
    by (simp add: request_def refuse)
  show "requestWithPagination rt this endpoint params options
      = (Inl (AuthenticationError ''No credentials provided. Include X-GitLab-Token or X-GitLab-Access-Token header.''), [])"
    by (simp add: requestWithPagination_def refuse)
  show "getFileRaw rt this projectId filePath ref
      = (Inl (AuthenticationError ''No credentials provided. Include X-GitLab-Token or X-GitLab-Access-Token header.''), [])"
    by (simp add: getFileRaw_def refuse)
  show "getJobLog rt this projectId jobId
      = (Inl (AuthenticationError ''No credentials provided. Include X-GitLab-Token or X-GitLab-Access-Token header.''), [])"
    by (simp add: getJobLog_def refuse)
next
  assume sent: "headers options = None
      \<and> call \<in> set (snd (request rt this endpoint options)
                     @ snd (requestWithPagination rt this endpoint params options)
                     @ snd (getFileRaw rt this projectId filePath ref)
                     @ snd (getJobLog rt this projectId jobId))"
  then obtain auth where auth: "getAuthHeaders this = Inr auth"
    using calls_carry_auth_headers(2) by blast
  with sent have "headers (snd call) = Some auth"
    using calls_carry_auth_headers(1) by blast
  with auth show "\<exists>auth. getAuthHeaders this = Inr auth \<and> headers (snd call) = Some auth
      \<and> length (auth_header_names auth) = 1"
    by (simp add: getAuthHeaders_one_name)
qed

theorem one_authentication_header_witness:
  "accessToken (this_credentials both_client) = Some ''oauth-2''
   \<and> privateToken (this_credentials both_client) = Some ''glpat-1''
   \<and> snd (request (mock_runtime user_response) both_client ''/user'' empty_init)
       = [(''https://gitlab.com/api/v4/user'',
           \<lparr> http_method = None, body = None,
             headers = Some [(''Authorization'', ''Bearer oauth-2''), (''Content-Type'', ''application/json'')] \<rparr>)]
   \<and> auth_header_names [(''Authorization'', ''Bearer oauth-2''), (''Content-Type'', ''application/json'')]
       = [''Authorization'']
   \<and> \<not> truthy_string (accessToken (this_credentials private_client))
   \<and> getAuthHeaders private_client
       = Inr [(''PRIVATE-TOKEN'', ''glpat-1''), (''Content-Type'', ''application/json'')]
   \<and> \<not> truthy_string (privateToken (this_credentials anonymous_client))
   \<and> snd (request (mock_runtime user_response) anonymous_client ''/user'' empty_init) = []"
  using one_authentication_header [of both_client "''oauth-2''" "''glpat-1''"
      "mock_runtime user_response" "''/user''" empty_init None "IdNumber (Fin 7)" "''README.md''"
      "''main''" "Fin 9"
      "(''https://gitlab.com/api/v4/user'',
           \<lparr> http_method = None, body = None,
             headers = Some [(''Authorization'', ''Bearer oauth-2''), (''Content-Type'', ''application/json'')] \<rparr>)"]
    one_authentication_header [of private_client _ "''glpat-1''"]
    one_authentication_header [of anonymous_client _ _ "mock_runtime user_response" "''/user''"
      empty_init]
  by (simp add: request_calls client_eval auth_header_names_def)

section \<open>\<open>testConnection\<close>\<close>

lemma or_json_truthy: "truthy_json d \<Longrightarrow> truthy_json (or_json a d)"
  by (simp add: or_json_def split: option.splits)

lemma api_error_message_truthy: "truthy_json (api_error_message rt response)"
proof (cases "JSON_parse rt (text_r response)")
  case (Inl err)
  then show ?thesis by (simp add: api_error_message_cases)
next
  case (Inr j)
  then show ?thesis
    by (cases j) (simp_all add: api_error_message_cases or_json_truthy)
qed

text \<open>
  The errors that the executors raise for a response have a message that is not empty,
  as long as the message is a string: the two fixed texts, the default \<open>API error: ...\<close>,
  or a field that \<open>||\<close> let through, which an empty string is not.
\<close>

lemma status_error_message_nonempty:
  assumes "status_error rt response = Some e" and "string_message e"
  shows "error_message num e \<noteq> []"
proof -
  have "truthy_json (JStr s) \<Longrightarrow> s \<noteq> []" for s by simp
  with assms api_error_message_truthy [of rt response] show ?thesis
    by (cases "api_error_message rt response")
      (auto simp: status_error_def Let_def split: if_splits)
qed

text \<open>
  C8 as stated fails in two places. A successful response does not always give a
  connected result: on a 204 \<open>getCurrentUser\<close> resolves to \<open>undefined\<close>, reading
  \<open>user.username\<close> throws inside the \<open>try\<close> block, and the result is not connected. And
  the message of a failure is the message of the error that was caught, which is empty
  when that one is, as for a transport that rejects with \<open>new Error('')\<close>.
\<close>

theorem testConnection_not_as_claimed:
  "ok no_content_response
   \<and> fst (getCurrentUser (mock_runtime no_content_response) private_client) = Inr None
   \<and> fst (testConnection (mock_runtime no_content_response) private_client)
     = Inr \<lparr> connected = False,
             message = ''Cannot read properties of undefined (reading '' @ [CHR 0x27] @ ''username''
                       @ [CHR 0x27] @ '')'',
             user = None \<rparr>
   \<and> fst (getCurrentUser (failing_runtime (Error [])) private_client) = Inl (Error [])
   \<and> fst (testConnection (failing_runtime (Error [])) private_client)
     = Inr \<lparr> connected = False, message = [], user = None \<rparr>"
  by (simp add: testConnection_def connection_failed_def getCurrentUser_def request_def
      status_error_def ok_def client_eval mock_eval no_content_response_def failing_runtime_def)

text \<open>
  C8, amended. \<open>testConnection\<close> never throws and makes the calls of \<open>getCurrentUser\<close>
  only. When \<open>getCurrentUser\<close> resolves and the user has a readable \<open>username\<close>, the result is
  connected, with the message \<open>Connected as <username>\<close> and the user. When
  \<open>getCurrentUser\<close> throws an error, or resolves to \<open>undefined\<close> or \<open>null\<close> so that reading
  the user name throws one, the result is not connected and its message is the message
  of that error (\<open>Connection failed\<close> for a thrown value that is no \<open>Error\<close>); the message
  is not empty for any error that the executor built with a string message for a
  response, such as a 500.
\<close>

theorem testConnection_never_throws:
  "(\<exists>res. fst (testConnection rt this) = Inr res)
   \<and> snd (testConnection rt this) = snd (getCurrentUser rt this)
   \<and> (fst (getCurrentUser rt this) = Inr u \<and> js_get u ''username'' = Inr name
      \<longrightarrow> fst (testConnection rt this)
          = Inr \<lparr> connected = True,
                  message = ''Connected as '' @ js_to_string_opt (Number_toString rt) name,
                  user = u \<rparr>)
   \<and> (fst (getCurrentUser rt this) = Inr u \<and> js_get u ''username'' = Inr (Some (JStr login))
      \<longrightarrow> fst (testConnection rt this)
          = Inr \<lparr> connected = True, message = ''Connected as '' @ login, user = u \<rparr>)
   \<and> (fst (getCurrentUser rt this) = Inl e
       \<or> fst (getCurrentUser rt this) = Inr u \<and> js_get u ''username'' = Inl e
      \<longrightarrow> fst (testConnection rt this)
          = Inr \<lparr> connected = False,
                  message = (if instanceof_Error e then error_message (Number_toString rt) e
                             else ''Connection failed''),
                  user = None \<rparr>)
   \<and> (snd (getCurrentUser rt this) = [(url, init)] \<and> fetch rt url init = Inr response
       \<and> status_error rt response = Some e \<and> string_message e
      \<longrightarrow> fst (testConnection rt this)
            = Inr \<lparr> connected = False, message = error_message (Number_toString rt) e, user = None \<rparr>
          \<and> error_message (Number_toString rt) e \<noteq> [])"
proof (intro conjI impI)
  show "\<exists>res. fst (testConnection rt this) = Inr res"
    by (simp add: testConnection_def split: prod.splits sum.splits)
  show "snd (testConnection rt this) = snd (getCurrentUser rt this)"
    by (simp add: testConnection_def split: prod.splits)
next
  assume "fst (getCurrentUser rt this) = Inr u \<and> js_get u ''username'' = Inr name"
  then show "fst (testConnection rt this)
      = Inr \<lparr> connected = True,
              message = ''Connected as '' @ js_to_string_opt (Number_toString rt) name,
              user = u \<rparr>"
    by (auto simp: testConnection_def split: prod.splits)
next
  assume "fst (getCurrentUser rt this) = Inr u \<and> js_get u ''username'' = Inr (Some (JStr login))"
  then show "fst (testConnection rt this)
      = Inr \<lparr> connected = True, message = ''Connected as '' @ login, user = u \<rparr>"
    by (auto simp: testConnection_def js_to_string_opt_def split: prod.splits)
next
  assume "fst (getCurrentUser rt this) = Inl e
      \<or> fst (getCurrentUser rt this) = Inr u \<and> js_get u ''username'' = Inl e"
  then show "fst (testConnection rt this)
      = Inr \<lparr> connected = False,
              message = (if instanceof_Error e then error_message (Number_toString rt) e
                         else ''Connection failed''),
              user = None \<rparr>"
    by (auto simp: testConnection_def connection_failed_def split: prod.splits)
next
  assume answered: "snd (getCurrentUser rt this) = [(url, init)] \<and> fetch rt url init = Inr response
      \<and> status_error rt response = Some e \<and> string_message e"
  then have thrown: "fst (getCurrentUser rt this) = Inl e"
    by (simp add: getCurrentUser_def request_answered)
  from answered have "instanceof_Error e" by (cases e) simp_all
  with thrown show "fst (testConnection rt this)
      = Inr \<lparr> connected = False, message = error_message (Number_toString rt) e, user = None \<rparr>"
    by (auto simp: testConnection_def connection_failed_def split: prod.splits)
  from answered show "error_message (Number_toString rt) e \<noteq> []"
    using status_error_message_nonempty [of rt response e] by simp
qed

theorem testConnection_never_throws_witness:
  "fst (getCurrentUser (mock_runtime user_response) private_client)
     = Inr (Some (JObj [(''username'', JStr ''octo'')]))
   \<and> fst (testConnection (mock_runtime user_response) private_client)
     = Inr \<lparr> connected = True, message = ''Connected as octo'',
             user = Some (JObj [(''username'', JStr ''octo'')]) \<rparr>
   \<and> snd (getCurrentUser (mock_runtime server_error_response) private_client)
     = [private_call ''https://gitlab.com/api/v4/user'']
   \<and> status_error (mock_runtime server_error_response) server_error_response
     = Some (GitLabApiError (JStr ''API error: 500'') 500)
   \<and> fst (testConnection (mock_runtime server_error_response) private_client)
     = Inr \<lparr> connected = False, message = ''API error: 500'', user = None \<rparr>"
proof -
  have user: "fst (getCurrentUser (mock_runtime user_response) private_client)
      = Inr (Some (JObj [(''username'', JStr ''octo'')]))"
    by (simp add: getCurrentUser_def request_def status_error_def ok_def client_eval mock_eval
        user_response_def)
  have calls: "snd (getCurrentUser (mock_runtime server_error_response) private_client)
      = [private_call ''https://gitlab.com/api/v4/user'']"
    by (simp add: getCurrentUser_def request_calls client_eval private_call_def)
  have failed: "status_error (mock_runtime server_error_response) server_error_response
      = Some (GitLabApiError (JStr ''API error: 500'') 500)"
    by (simp add: status_error_def ok_def api_error_message_def mock_eval server_error_response_def
        show_nat.simps)
  have answer: "fetch (mock_runtime server_error_response) u i = Inr server_error_response" for u i
    by (simp add: mock_runtime_def)
  note a = testConnection_never_throws [of "mock_runtime user_response" private_client
      "Some (JObj [(''username'', JStr ''octo'')])" "Some (JStr ''octo'')" "''octo''"]
  note b = testConnection_never_throws [of "mock_runtime server_error_response" private_client
      _ _ _ "GitLabApiError (JStr ''API error: 500'') 500" "''https://gitlab.com/api/v4/user''"
      "snd (private_call [])" server_error_response]
  have connected: "fst (testConnection (mock_runtime user_response) private_client)
      = Inr \<lparr> connected = True, message = ''Connected as octo'',
              user = Some (JObj [(''username'', JStr ''octo'')]) \<rparr>"
    using a user by (simp add: js_to_string_opt_def)
  have refused: "fst (testConnection (mock_runtime server_error_response) private_client)
      = Inr \<lparr> connected = False, message = ''API error: 500'', user = None \<rparr>"
    using b calls failed answer by (simp add: private_call_def)
  show ?thesis
    using user connected calls failed refused by simp
qed

section \<open>Identifiers in URLs\<close>





















































end
